theory Spec2Isabelle
  imports Complex_Main "HOL-Library.Multiset" "HOL-Library.Sublist" "HOL-Library.Log_Nat"
begin

section \<open>JavaScript numbers\<close>

text \<open>
  A JS number is an IEEE 754 double. The numbers that the program reads from the
  operator are integers, the infinities and NaN; \<open>Num z\<close> is the double whose value is
  the integer \<open>z\<close>.
\<close>

datatype number = Num int | PosInfinity | NegInfinity | NaN

text \<open>
  A double holds 53 significant bits. \<open>round53 n\<close> is the double nearest to the integer
  \<open>n \<ge> 0\<close>, as an integer: below \<open>2 ^ 53\<close> it is \<open>n\<close>; above, the bits after the 53rd
  are rounded off, to the nearest and to the even neighbour when \<open>n\<close> lies half way.
  \<open>roundInt\<close> does the same for either sign.
\<close>

definition round53 :: "int \<Rightarrow> int" where
  "round53 n =
     (if n < 2 ^ 53 then n
      else
        (let s = nat (bitlen n - 53); q = n div 2 ^ s; rm = n mod 2 ^ s; half = 2 ^ (s - 1)
         in if half < rm \<or> (rm = half \<and> odd q) then (q + 1) * 2 ^ s else q * 2 ^ s))"

definition roundInt :: "int \<Rightarrow> int" where
  "roundInt z = (if z < 0 then - round53 (- z) else round53 z)"

text \<open>
  The Number value of an integer: the nearest double, and an infinity when that is
  \<open>2 ^ 1024\<close> in size or more.
\<close>

definition toNumber :: "int \<Rightarrow> number" where
  "toNumber z =
     (let d = roundInt z
      in if 2 ^ 1024 \<le> d then PosInfinity else if d \<le> - (2 ^ 1024) then NegInfinity else Num d)"

text \<open>\<^verbatim>\<open>Number.isInteger(x)\<close>\<close>

definition isInteger :: "number \<Rightarrow> bool" where
  "isInteger x = (case x of Num z \<Rightarrow> True | _ \<Rightarrow> False)"

text \<open>\<^verbatim>\<open>x - 1\<close>\<close>

definition minusOne :: "number \<Rightarrow> number" where
  "minusOne x = (case x of Num z \<Rightarrow> toNumber (z - 1) | _ \<Rightarrow> x)"

section \<open>JavaScript strings\<close>

text \<open>
  A JS string is modelled as a \<open>string\<close>: a list of code units below 256. The white
  space of \<^verbatim>\<open>\s\<close>, of \<^verbatim>\<open>trim()\<close> and of \<^verbatim>\<open>parseInt\<close> is, in that range,
  TAB, LF, VT, FF, CR, SPACE and NBSP.
\<close>

definition isSpace :: "char \<Rightarrow> bool" where
  "isSpace c = (c \<in> set [CHR 0x09, CHR 0x0A, CHR 0x0B, CHR 0x0C, CHR 0x0D, CHR 0x20, CHR 0xA0])"

definition isDigit :: "char \<Rightarrow> bool" where
  "isDigit c = (c \<in> set ''0123456789'')"

definition digitVal :: "char \<Rightarrow> int" where
  "digitVal c = int (of_char c) - 48"

text \<open>\<^verbatim>\<open>s.trim()\<close>\<close>

definition trim :: "string \<Rightarrow> string" where
  "trim s = rev (dropWhile isSpace (rev (dropWhile isSpace s)))"

text \<open>Puts a code unit in front of the first piece of a split.\<close>

fun consFirst :: "char \<Rightarrow> string list \<Rightarrow> string list" where
  "consFirst c [] = [[c]]"
| "consFirst c (p # ps) = (c # p) # ps"

text \<open>
  \<^verbatim>\<open>s.split(/\s+/)\<close>: the pieces between maximal runs of white space; a run at
  either end leaves an empty piece there, and the empty string gives one empty piece.
\<close>

function splitWs :: "string \<Rightarrow> string list" where
  "splitWs [] = [[]]"
| "splitWs (c # cs) =
     (if isSpace c then [] # splitWs (dropWhile isSpace cs) else consFirst c (splitWs cs))"
  by pat_completeness auto
termination
  by (relation "measure length") (auto simp: le_imp_less_Suc length_dropWhile_le)

text \<open>
  \<^verbatim>\<open>s.split(/\s*,\s*/)\<close>: a separator is a comma with the white space around it.
  The match is tried at each position from the left, so a piece ends where the rest of
  the string is white space followed by a comma, and the next piece starts after the
  white space that follows the comma.
\<close>

function splitComma :: "string \<Rightarrow> string list" where
  "splitComma [] = [[]]"
| "splitComma (c # cs) =
     (case dropWhile isSpace (c # cs) of
        [] \<Rightarrow> consFirst c (splitComma cs)
      | d # ds \<Rightarrow>
          if d = CHR '','' then [] # splitComma (dropWhile isSpace ds)
          else consFirst c (splitComma cs))"
  by pat_completeness auto
termination
proof (relation "measure length", goal_cases)
  case 1
  show ?case by simp
next
  case (2 c cs)
  show ?case by simp
next
  case (3 c cs d ds)
  have "length (d # ds) \<le> length (c # cs)"
    unfolding 3(1)[symmetric] by (rule length_dropWhile_le)
  moreover have "length (dropWhile isSpace ds) \<le> length ds"
    by (rule length_dropWhile_le)
  ultimately show ?case by simp
next
  case (4 c cs d ds)
  show ?case by simp
qed

text \<open>\<^verbatim>\<open>s.split('-')\<close> for a separator of one code unit.\<close>

fun splitOn :: "char \<Rightarrow> string \<Rightarrow> string list" where
  "splitOn d [] = [[]]"
| "splitOn d (c # cs) = (if c = d then [] # splitOn d cs else consFirst c (splitOn d cs))"

text \<open>
  \<^verbatim>\<open>parseInt(s, 10)\<close>: leading white space is skipped, one sign is read, then the
  longest run of decimal digits; without a digit the result is NaN, and otherwise the
  Number value of the integer that the digits write. (From the 21st significant digit on
  ECMAScript lets an implementation read a digit as 0; the value here is rounded from
  all the digits, as V8 does.)
\<close>

definition digitsValue :: "string \<Rightarrow> int" where
  "digitsValue z = foldl (\<lambda>acc c. acc * 10 + digitVal c) 0 z"

definition parseInt :: "string \<Rightarrow> number" where
  "parseInt s =
     (let t = dropWhile isSpace s;
          sign = (case t of [] \<Rightarrow> 1 | c # _ \<Rightarrow> if c = CHR ''-'' then - 1 else (1::int));
          u = (case t of [] \<Rightarrow> [] | c # cs \<Rightarrow> if c = CHR ''-'' \<or> c = CHR ''+'' then cs else t);
          z = takeWhile isDigit u
      in if z = [] then NaN else toNumber (sign * digitsValue z))"

section \<open>The interactive review of suggestions\<close>

subsection \<open>parseIndexList\<close>

text \<open>A JS \<^verbatim>\<open>Set\<close> of numbers keeps its members in the order they were added.\<close>

definition setAdd :: "nat list \<Rightarrow> nat \<Rightarrow> nat list" where
  "setAdd s i = (if i \<in> set s then s else s @ [i])"

text \<open>
  The two bounds of a range: \<^verbatim>\<open>const [a, b] = part.split('-').map((n) => parseInt(n, 10))\<close>,
  when \<^verbatim>\<open>Number.isInteger(a) && Number.isInteger(b)\<close>.
\<close>

definition rangeBounds :: "string \<Rightarrow> (int \<times> int) option" where
  "rangeBounds part =
     (case map parseInt (splitOn CHR ''-'' part) of
        Num a # Num b # _ \<Rightarrow> Some (a, b)
      | _ \<Rightarrow> None)"

text \<open>
  \<^verbatim>\<open>for (let i = start; i <= end; i += 1) if (i >= 1 && i <= max) set.add(i - 1);\<close>
  from the value \<open>i\<close> of the counter on, with the set built so far. The counter is a
  double: \<^verbatim>\<open>i += 1\<close> gives the double nearest to \<open>i + 1\<close>, which from \<open>2 ^ 53\<close> on
  may be \<open>i\<close> itself. The loop then has no end; \<open>None\<close> is the loop that does not
  return. (\<open>mx\<close> is the source's max, the length of an array, so \<open>i - 1\<close> is exact
  where it is added.)
\<close>

partial_function (option) rangeLoop :: "nat \<Rightarrow> int \<Rightarrow> int \<Rightarrow> nat list \<Rightarrow> nat list option" where
  "rangeLoop mx i fin s =
     (if i \<le> fin
      then rangeLoop mx (roundInt (i + 1)) fin
             (if 1 \<le> i \<and> i \<le> int mx then setAdd s (nat (i - 1)) else s)
      else Some s)"

text \<open>
  One pass of the loop over a range, by whether its test holds; the loop in a form that
  can be evaluated step by step.
\<close>

definition rangeStep :: "bool \<Rightarrow> nat \<Rightarrow> int \<Rightarrow> int \<Rightarrow> nat list \<Rightarrow> nat list option" where
  "rangeStep again mx i fin s =
     (if again
      then rangeLoop mx (roundInt (i + 1)) fin
             (if 1 \<le> i \<and> i \<le> int mx then setAdd s (nat (i - 1)) else s)
      else Some s)"

text \<open>
  The body of the \<^verbatim>\<open>for (const part of ...)\<close> loop of parseIndexList, on the set built
  so far. A part with a dash is a range, from the smaller bound to the larger.
\<close>

definition addPart :: "nat \<Rightarrow> nat list \<Rightarrow> string \<Rightarrow> nat list option" where
  "addPart mx s part =
     (if part = [] then Some s
      else if CHR ''-'' \<in> set part then
        (case rangeBounds part of
           Some (a, b) \<Rightarrow> rangeLoop mx (min a b) (max a b) s
         | None \<Rightarrow> Some s)
      else
        (case parseInt part of
           Num n \<Rightarrow> if 1 \<le> n \<and> n \<le> int mx then Some (setAdd s (nat (n - 1))) else Some s
         | _ \<Rightarrow> Some s))"

fun addParts :: "nat \<Rightarrow> string list \<Rightarrow> nat list \<Rightarrow> nat list option" where
  "addParts mx [] s = Some s"
| "addParts mx (part # parts) s =
     (case addPart mx s part of None \<Rightarrow> None | Some s' \<Rightarrow> addParts mx parts s')"

text \<open>
  \<^verbatim>\<open>parseIndexList(inputStr, max)\<close>: the 0-based indices, ascending
  (\<^verbatim>\<open>Array.from(set).sort((a, b) => a - b)\<close>), or \<open>None\<close> when the loop over a range
  does not return. The parameter \<open>mx\<close> is the source's max.
\<close>

definition parseIndexList :: "string \<Rightarrow> nat \<Rightarrow> nat list option" where
  "parseIndexList inputStr mx = map_option sort (addParts mx (splitComma inputStr) [])"

subsection \<open>reviewSuggestionsInteractively\<close>

text \<open>
  A suggestion as the schema of suggestCVImprovements gives it. The field \<open>kind\<close> is the
  source's \<^verbatim>\<open>type\<close>.
\<close>

record suggestion =
  kind :: string
  location :: string
  suggestion :: string

text \<open>What the loop writes to the console.\<close>

datatype console =
    Suggestions "suggestion list"  \<comment> \<open>\<^verbatim>\<open>printSuggestions(list)\<close>\<close>
  | Log string                     \<comment> \<open>\<^verbatim>\<open>console.log\<close> of a fixed message\<close>
  | Editing nat                    \<comment> \<open>\<^verbatim>\<open>Editing #n\<close>\<close>
  | Current string                 \<comment> \<open>\<^verbatim>\<open>Current suggestion: ...\<close>\<close>
  | Prefill string                 \<comment> \<open>\<^verbatim>\<open>rl.write(defaultInput)\<close> in ask\<close>
  | Preview string                 \<comment> \<open>the rendered Markdown preview of polishCV\<close>

definition commandsHelp :: string where
  "commandsHelp = ''Commands: d <idx[,..]|a> delete | e <idx> edit | c continue | q quit''"

text \<open>
  \<^verbatim>\<open>const [cmd, restRaw] = line.split(/\s+/, 2); const rest = restRaw || '';\<close>
  The limit 2 keeps the first two pieces and drops the others.
\<close>

definition splitCommand :: "string \<Rightarrow> string \<times> string" where
  "splitCommand line =
     (case take 2 (splitWs line) of
        [] \<Rightarrow> ([], [])
      | [cmd] \<Rightarrow> (cmd, [])
      | cmd # restRaw # _ \<Rightarrow> (cmd, restRaw))"

text \<open>\<^verbatim>\<open>list.filter((_, i) => !idxs.includes(i))\<close>\<close>

definition removeIndices :: "nat list \<Rightarrow> 'a list \<Rightarrow> 'a list" where
  "removeIndices idxs list = map snd (filter (\<lambda>(i, _). i \<notin> set idxs) (enumerate 0 list))"

text \<open>
  One pass of the loop body from the answer to the prompt \<^verbatim>\<open>> \<close> on: what it logs,
  and how the pass ends.
\<close>

datatype step =
    Return "suggestion list"    \<comment> \<open>\<^verbatim>\<open>return\<close>\<close>
  | Continue "suggestion list"  \<comment> \<open>\<^verbatim>\<open>continue\<close>, with the list as it is now\<close>
  | AskEdit nat                 \<comment> \<open>the replacement text for this index is asked for\<close>
  | Hang                        \<comment> \<open>parseIndexList does not return\<close>

definition reviewCommand :: "suggestion list \<Rightarrow> string \<Rightarrow> console list \<times> step" where
  "reviewCommand list answer =
     (let line = trim answer in
      if line = [] then ([], Continue list)
      else
        (let cmd = fst (splitCommand line); rest = snd (splitCommand line) in
         if cmd = ''q'' then ([], Return [])
         else if cmd = ''c'' then ([], Return list)
         else if cmd = ''d'' then
           (if rest = ''a'' then ([], Continue [])
            else
              (case parseIndexList rest (length list) of
                 None \<Rightarrow> ([], Hang)
               | Some idxs \<Rightarrow>
                   if idxs = [] then ([Log ''No valid indices.''], Continue list)
                   else ([], Continue (removeIndices idxs list))))
         else if cmd = ''e'' then
           (case minusOne (parseInt rest) of
              Num idx \<Rightarrow>
                if idx < 0 \<or> int (length list) \<le> idx then ([Log ''Out of range.''], Continue list)
                else ([Editing (nat idx + 1), Current (suggestion (list ! nat idx))],
                      AskEdit (nat idx))
            | _ \<Rightarrow> ([Log ''Out of range.''], Continue list))
         else ([Log ''Unknown command.''], Continue list)))"

text \<open>
  \<^verbatim>\<open>function ask(rl, q, defaultInput = '') { rl.write(defaultInput); return rl.question(q, { defaultInput }); }\<close>
  The text is written into the input line, where the operator finds it when the
  question is put; the question resolves to the line as it stands when the operator
  presses Enter, which is the next of the lines \<open>ins\<close> (a text of one line that is
  written and then sent with Enter alone comes back as it is). The result is what was
  written, and the line with the lines that remain, if there is a line.
\<close>

definition ask :: "string \<Rightarrow> string list \<Rightarrow> console list \<times> (string \<times> string list) option" where
  "ask defaultInput ins =
     ([Prefill defaultInput], case ins of [] \<Rightarrow> None | line # ins' \<Rightarrow> Some (line, ins'))"

text \<open>
  The rest of the \<^verbatim>\<open>e\<close> branch, from the answer to the question for the new text on.
  The index is in range here (reviewCommand asks only then).
\<close>

definition reviewEdit :: "suggestion list \<Rightarrow> nat \<Rightarrow> string \<Rightarrow> suggestion list" where
  "reviewEdit list idx answer =
     (let item = list ! idx; newSug = trim answer
      in list[idx := (if newSug \<noteq> [] then item\<lparr>suggestion := newSug\<rparr> else item)])"

text \<open>
  An async function of the program either returns, or throws, or never settles: because
  the operator gives no further line, and then it waits at the command prompt or at the
  question of an edit, with the list as it is; or because a loop in it has no end.
\<close>

datatype error = TransportError string | SyntaxError

datatype 'a result =
    Returned 'a
  | Threw error
  | AwaitCommand "suggestion list"
  | AwaitEdit "suggestion list" nat
  | Diverges
  | OutsideModel

definition emit :: "console list \<Rightarrow> console list \<times> 'a \<Rightarrow> console list \<times> 'a" where
  "emit out r = (out @ fst r, snd r)"

text \<open>
  The loop \<^verbatim>\<open>for (;;)\<close> over the lines that the operator gives, in order. Each line is
  what one \<^verbatim>\<open>rl.question\<close> resolves to. Closing the readline interface in the
  \<^verbatim>\<open>finally\<close> block changes nothing that is modelled.
\<close>

function reviewLoop :: "suggestion list \<Rightarrow> string list \<Rightarrow> console list \<times> suggestion list result" where
  "reviewLoop list [] = ([Suggestions list, Log commandsHelp], AwaitCommand list)"
| "reviewLoop list (answer # ins) =
     emit [Suggestions list, Log commandsHelp]
       (case reviewCommand list answer of
          (out, Return r) \<Rightarrow> (out, Returned r)
        | (out, Continue list') \<Rightarrow> emit out (reviewLoop list' ins)
        | (out, AskEdit idx) \<Rightarrow>
            (case ask (suggestion (list ! idx)) ins of
               (written, None) \<Rightarrow> (out @ written, AwaitEdit list idx)
             | (written, Some (newText, ins')) \<Rightarrow>
                 emit (out @ written) (reviewLoop (reviewEdit list idx newText) ins'))
        | (out, Hang) \<Rightarrow> (out, Diverges))"
  by pat_completeness auto
termination
  by (relation "measure (\<lambda>(list, ins). length ins)") (auto simp: ask_def split: list.splits)

text \<open>
  The decimal numeral of a natural number, as an operator writes an index: its digits
  without a sign, the most significant first.
\<close>

definition digitChar :: "nat \<Rightarrow> char" where
  "digitChar d = ''0123456789'' ! d"

fun decimal :: "nat \<Rightarrow> string" where
  "decimal n = (if n < 10 then [digitChar n] else decimal (n div 10) @ [digitChar (n mod 10)])"

text \<open>
  \<^verbatim>\<open>let list = suggestions.map((s) => ({ ...s }));\<close> copies the suggestions, which are
  values here.
\<close>

definition reviewSuggestionsInteractively ::
    "suggestion list \<Rightarrow> string list \<Rightarrow> console list \<times> suggestion list result" where
  "reviewSuggestionsInteractively suggestions ins = reviewLoop (map (\<lambda>s. s) suggestions) ins"

section \<open>The language model and the documents\<close>

text \<open>
  JSON values, for the data that the program passes on unread (personal details,
  qualifications) and for what \<^verbatim>\<open>JSON.parse\<close> gives. A number is \<open>JNum m e\<close>, the
  decimal \<open>m * 10 ^ e\<close>; an object lists its members in their order.
\<close>

datatype json =
    JNull
  | JBool bool
  | JNum int int
  | JStr string
  | JArr "json list"
  | JObj "(string \<times> json) list"

text \<open>
  A past role of the CV is an object whose members are strings (jobTitle, from, to,
  description and whatever else the file gives), in their order.
\<close>

type_synonym role = "(string \<times> string) list"

text \<open>\<^verbatim>\<open>delete obj.key\<close>\<close>

definition deleteKey :: "string \<Rightarrow> (string \<times> 'v) list \<Rightarrow> (string \<times> 'v) list" where
  "deleteKey k obj = filter (\<lambda>(k', _). k' \<noteq> k) obj"

text \<open>The CV base data as cv.base.json gives them; a member that is absent is \<open>None\<close>.\<close>

record cvBaseData =
  personalDetails :: "json option"
  qualifications :: "json option"
  skills :: "string list option"
  achievements :: "string list option"
  pastJobRoles :: "role list option"

text \<open>The object \<^verbatim>\<open>cv\<close> that draftCV builds and hands to composeCVMarkdown.\<close>

record cv =
  personalDetails :: "json option"
  qualifications :: "json option"
  skills :: "string list"
  achievements :: "string list"
  pastJobRoles :: "role list"

text \<open>
  What the relevance scorer returns, \<^verbatim>\<open>{ score, rationale }\<close>, and the entries
  \<^verbatim>\<open>{ skill, score, rationale }\<close> and \<^verbatim>\<open>{ achievement, score, rationale }\<close> that draftCV
  keeps; \<open>item\<close> is the skill or the achievement.
\<close>

record relevance =
  score :: int
  rationale :: string

record scored = relevance +
  item :: string

text \<open>
  Every call of the model service goes through sendToLLM and is one entry of the
  history of calls. The functions that build a prompt and return what sendToLLM returns
  are the fields of \<open>llm\<close>: each maps the history so far and its arguments to an error
  thrown or to the value the caller reads, so the same question may be answered
  differently each time it is asked. The values have the types that the schemas of the
  calls declare (a score is an integer, of any size). The progress lines that draftCV
  and runOnce log are not modelled.
\<close>

datatype llm_call =
    AssessSkillRelevance string string
  | AssessRoleRelevance role string
  | ComposeCVMarkdown cv
  | SuggestCVImprovements string
  | ApplyCVEdits string "suggestion list"
  | FetchJobDescription string
  | ApplicationStillOpen string
  | DraftCoveringLetter cvBaseData string string

record llm =
  assessSkillRelevanceToNewJob :: "llm_call list \<Rightarrow> string \<Rightarrow> string \<Rightarrow> error + relevance"
  assessRoleRelevanceToNewJob :: "llm_call list \<Rightarrow> role \<Rightarrow> string \<Rightarrow> error + relevance"
  composeCVMarkdown :: "llm_call list \<Rightarrow> cv \<Rightarrow> error + string"
  suggestCVImprovements :: "llm_call list \<Rightarrow> string \<Rightarrow> error + suggestion list option"
  applyCVEdits :: "llm_call list \<Rightarrow> string \<Rightarrow> suggestion list \<Rightarrow> error + string"

subsection \<open>polishCV\<close>

text \<open>
  polishCV on the Markdown of the CV, with the history of calls so far and the lines the
  operator will give. The result is what was written to the console, the history after,
  and how the function ended. \<open>None\<close> from suggestCVImprovements is a reply without a
  suggestions member (\<^verbatim>\<open>!suggestions\<close>).
\<close>

definition polishCV ::
    "llm \<Rightarrow> string \<Rightarrow> llm_call list \<Rightarrow> string list \<Rightarrow>
     console list \<times> llm_call list \<times> string result" where
  "polishCV m cvMarkdown h ins =
     (let h1 = h @ [SuggestCVImprovements cvMarkdown] in
      case suggestCVImprovements m h cvMarkdown of
        Inl e \<Rightarrow> ([Preview cvMarkdown], h1, Threw e)
      | Inr None \<Rightarrow> ([Preview cvMarkdown], h1, Returned cvMarkdown)
      | Inr (Some suggestions) \<Rightarrow>
          if length suggestions = 0 then ([Preview cvMarkdown], h1, Returned cvMarkdown)
          else
            (case reviewSuggestionsInteractively suggestions ins of
               (out, Returned approvedList) \<Rightarrow>
                 if length approvedList = 0 then (Preview cvMarkdown # out, h1, Returned cvMarkdown)
                 else
                   (case applyCVEdits m h1 cvMarkdown approvedList of
                      Inl e \<Rightarrow>
                        (Preview cvMarkdown # out, h1 @ [ApplyCVEdits cvMarkdown approvedList], Threw e)
                    | Inr cv_markdown \<Rightarrow>
                        (Preview cvMarkdown # out, h1 @ [ApplyCVEdits cvMarkdown approvedList],
                         Returned cv_markdown))
             | (out, Threw e) \<Rightarrow> (Preview cvMarkdown # out, h1, Threw e)
             | (out, AwaitCommand l) \<Rightarrow> (Preview cvMarkdown # out, h1, AwaitCommand l)
             | (out, AwaitEdit l i) \<Rightarrow> (Preview cvMarkdown # out, h1, AwaitEdit l i)
             | (out, Diverges) \<Rightarrow> (Preview cvMarkdown # out, h1, Diverges)
             | (out, OutsideModel) \<Rightarrow> (Preview cvMarkdown # out, h1, OutsideModel)))"

subsection \<open>draftCV\<close>

text \<open>
  \<^verbatim>\<open>Array.prototype.sort(compare)\<close> is stable: of two elements that compare equal, the
  one that was first stays first. For a comparator that orders the elements
  consistently, as byScoreDesc does, that fixes the result, and sortJS computes it by
  insertion: insertBy puts an element before the first one that it does not have to
  follow. For any comparator the result is a permutation of the array.
\<close>

fun insertBy :: "('a \<Rightarrow> 'a \<Rightarrow> int) \<Rightarrow> 'a \<Rightarrow> 'a list \<Rightarrow> 'a list" where
  "insertBy cmp x [] = [x]"
| "insertBy cmp x (y # ys) = (if cmp x y \<le> 0 then x # y # ys else y # insertBy cmp x ys)"

definition sortJS :: "('a \<Rightarrow> 'a \<Rightarrow> int) \<Rightarrow> 'a list \<Rightarrow> 'a list" where
  "sortJS cmp xs = foldr (insertBy cmp) xs []"

text \<open>\<^verbatim>\<open>function byScoreDesc(a, b) { return b.score - a.score; }\<close>\<close>

definition byScoreDesc :: "'a relevance_scheme \<Rightarrow> 'a relevance_scheme \<Rightarrow> int" where
  "byScoreDesc a b = score b - score a"

text \<open>
  \<^verbatim>\<open>function byStartDateDesc(a, b) { return (b.from || '').localeCompare(a.from || ''); }\<close>
  The collation \<^verbatim>\<open>localeCompare\<close> depends on the locale of the runtime and is a
  parameter.
\<close>

definition fromOrEmpty :: "role \<Rightarrow> string" where
  "fromOrEmpty a = (case map_of a ''from'' of None \<Rightarrow> [] | Some f \<Rightarrow> f)"

definition byStartDateDesc :: "(string \<Rightarrow> string \<Rightarrow> int) \<Rightarrow> role \<Rightarrow> role \<Rightarrow> int" where
  "byStartDateDesc localeCompare a b = localeCompare (fromOrEmpty b) (fromOrEmpty a)"

text \<open>\<^verbatim>\<open>x || []\<close> on a list that may be absent.\<close>

definition orEmpty :: "'a list option \<Rightarrow> 'a list" where
  "orEmpty x = (case x of None \<Rightarrow> [] | Some l \<Rightarrow> l)"

text \<open>
  The loop over the skills, and likewise over the achievements: each is scored and
  pushed with its score. A call that throws ends draftCV.
\<close>

fun assessEach ::
    "llm \<Rightarrow> string \<Rightarrow> string list \<Rightarrow> llm_call list \<Rightarrow> scored list \<Rightarrow>
     llm_call list \<times> (error + scored list)" where
  "assessEach m jobDescription [] h withRelevance = (h, Inr withRelevance)"
| "assessEach m jobDescription (skill # others) h withRelevance =
     (case assessSkillRelevanceToNewJob m h skill jobDescription of
        Inl e \<Rightarrow> (h @ [AssessSkillRelevance skill jobDescription], Inl e)
      | Inr r \<Rightarrow>
          assessEach m jobDescription others (h @ [AssessSkillRelevance skill jobDescription])
            (withRelevance @ [\<lparr>score = score r, rationale = rationale r, item = skill\<rparr>]))"

text \<open>
  The loop over the past roles: the role is copied, the copy loses its description when
  \<^verbatim>\<open>score < 80\<close>, and is pushed.
\<close>

fun assessRoles ::
    "llm \<Rightarrow> string \<Rightarrow> role list \<Rightarrow> llm_call list \<Rightarrow> role list \<Rightarrow>
     llm_call list \<times> (error + role list)" where
  "assessRoles m jobDescription [] h rolesToInclude = (h, Inr rolesToInclude)"
| "assessRoles m jobDescription (role # others) h rolesToInclude =
     (case assessRoleRelevanceToNewJob m h role jobDescription of
        Inl e \<Rightarrow> (h @ [AssessRoleRelevance role jobDescription], Inl e)
      | Inr r \<Rightarrow>
          (let includeRole = (if score r < 80 then deleteKey ''description'' role else role)
           in assessRoles m jobDescription others (h @ [AssessRoleRelevance role jobDescription])
                (rolesToInclude @ [includeRole])))"

text \<open>
  draftCV up to the call of composeCVMarkdown: the object \<^verbatim>\<open>cv\<close> that is passed to it
  (or the error thrown before), and the history of calls.
\<close>

definition draftCV_cv ::
    "llm \<Rightarrow> (string \<Rightarrow> string \<Rightarrow> int) \<Rightarrow> cvBaseData \<Rightarrow> string \<Rightarrow> llm_call list \<Rightarrow>
     llm_call list \<times> (error + cv)" where
  "draftCV_cv m localeCompare base jobDescription h =
     (case assessEach m jobDescription (orEmpty (cvBaseData.skills base)) h [] of
        (h1, Inl e) \<Rightarrow> (h1, Inl e)
      | (h1, Inr skillsWithRelevance) \<Rightarrow>
     (case assessEach m jobDescription (orEmpty (cvBaseData.achievements base)) h1 [] of
        (h2, Inl e) \<Rightarrow> (h2, Inl e)
      | (h2, Inr achievementsWithRelevance) \<Rightarrow>
     (case assessRoles m jobDescription (orEmpty (cvBaseData.pastJobRoles base)) h2 [] of
        (h3, Inl e) \<Rightarrow> (h3, Inl e)
      | (h3, Inr rolesToInclude) \<Rightarrow>
          (h3, Inr \<lparr>cv.personalDetails = cvBaseData.personalDetails base,
                    cv.qualifications = cvBaseData.qualifications base,
                    cv.skills = map item (take 10 (sortJS byScoreDesc skillsWithRelevance)),
                    cv.achievements = map item (take 10 (sortJS byScoreDesc achievementsWithRelevance)),
                    cv.pastJobRoles = sortJS (byStartDateDesc localeCompare) rolesToInclude\<rparr>))))"

definition draftCV ::
    "llm \<Rightarrow> (string \<Rightarrow> string \<Rightarrow> int) \<Rightarrow> cvBaseData \<Rightarrow> string \<Rightarrow> llm_call list \<Rightarrow> string list \<Rightarrow>
     console list \<times> llm_call list \<times> string result" where
  "draftCV m localeCompare base jobDescription h ins =
     (case draftCV_cv m localeCompare base jobDescription h of
        (h1, Inl e) \<Rightarrow> ([], h1, Threw e)
      | (h1, Inr cv) \<Rightarrow>
          (case composeCVMarkdown m h1 cv of
             Inl e \<Rightarrow> ([], h1 @ [ComposeCVMarkdown cv], Threw e)
           | Inr cv_markdown \<Rightarrow> polishCV m cv_markdown (h1 @ [ComposeCVMarkdown cv]) ins))"

subsection \<open>What the specification says of draftCV\<close>


text \<open>
  The calls that a run of draftCV has made when it has scored the given skills (or
  achievements), and the given roles: one call for each, in order. They give the history
  under which the scorer is asked about the next one.
\<close>

definition skillCalls :: "string \<Rightarrow> string list \<Rightarrow> llm_call list" where
  "skillCalls jd xs = map (\<lambda>x. AssessSkillRelevance x jd) xs"

definition roleCalls :: "string \<Rightarrow> role list \<Rightarrow> llm_call list" where
  "roleCalls jd rs = map (\<lambda>r. AssessRoleRelevance r jd) rs"

subsection \<open>Example data\<close>


definition moodyLLM :: llm where
  "moodyLLM =
     \<lparr>assessSkillRelevanceToNewJob = (\<lambda>h s jd. Inr \<lparr>score = int (length s), rationale = ''r''\<rparr>),
      assessRoleRelevanceToNewJob =
        (\<lambda>h role jd. Inr \<lparr>score = (if 5 \<le> length h then 5 else 85), rationale = ''r''\<rparr>),
      composeCVMarkdown = (\<lambda>h c. Inr ''# CV''),
      suggestCVImprovements = (\<lambda>h md. Inr (Some [])),
      applyCVEdits = (\<lambda>h md l. Inr ''# CV'')\<rparr>"

definition exampleBase :: cvBaseData where
  "exampleBase =
     \<lparr>cvBaseData.personalDetails = None, qualifications = None,
      skills = Some [''aaaaaaa'', ''bbb'', ''ccccccccc'', ''ddd''],
      achievements = None,
      pastJobRoles = Some [[(''jobTitle'', ''X''), (''from'', ''2018''), (''description'', ''dx'')],
                           [(''jobTitle'', ''Y''), (''from'', ''2021''), (''description'', ''dy'')]]\<rparr>"

section \<open>The model gateway: sendToLLM\<close>

subsection \<open>JSON.parse\<close>

text \<open>
  \<^verbatim>\<open>JSON.parse\<close> is a function of the JS runtime; it is modelled after the JSON grammar
  (ECMA-404): a lexer that reads the text one code unit at a time, and a parser that
  reads the tokens with a stack of the arrays and objects that are open. An escape
  \<^verbatim>\<open>\uXXXX\<close> for a code unit of 256 or more cannot be held in a \<open>string\<close>; a text
  with one is outside the model.
\<close>

datatype token =
    TLBrace | TRBrace | TLBracket | TRBracket | TColon | TComma
  | TStr string | TNum int int | TTrue | TFalse | TNull

text \<open>
  A number of the grammar, \<^verbatim>\<open>-? (0 | [1-9][0-9]*) (. [0-9]+)? ([eE] [+-]? [0-9]+)?\<close>,
  as mantissa and decimal exponent.
\<close>

definition parseNumber :: "string \<Rightarrow> (int \<times> int) option" where
  "parseNumber w =
     (let neg = (take 1 w = ''-'');
          s1 = (if neg then drop 1 w else w);
          ip = takeWhile isDigit s1;
          r1 = dropWhile isDigit s1;
          hasFrac = (take 1 r1 = ''.'');
          fp = (if hasFrac then takeWhile isDigit (drop 1 r1) else []);
          r2 = (if hasFrac then dropWhile isDigit (drop 1 r1) else r1);
          hasExp = (take 1 r2 = ''e'' \<or> take 1 r2 = ''E'');
          r3 = drop 1 r2;
          eneg = (take 1 r3 = ''-'');
          r4 = (if take 1 r3 = ''-'' \<or> take 1 r3 = ''+'' then drop 1 r3 else r3);
          ed = takeWhile isDigit r4;
          r5 = dropWhile isDigit r4
      in if ip = [] \<or> (length ip > 1 \<and> take 1 ip = ''0'') then None
         else if hasFrac \<and> fp = [] then None
         else if hasExp \<and> (ed = [] \<or> r5 \<noteq> []) then None
         else if \<not> hasExp \<and> r2 \<noteq> [] then None
         else Some ((if neg then - 1 else 1) * digitsValue (ip @ fp),
                    (if hasExp then (if eneg then - 1 else 1) * digitsValue ed else 0)
                      - int (length fp)))"

definition wordToken :: "string \<Rightarrow> token option" where
  "wordToken w =
     (if w = ''true'' then Some TTrue
      else if w = ''false'' then Some TFalse
      else if w = ''null'' then Some TNull
      else map_option (\<lambda>(m, e). TNum m e) (parseNumber w))"

definition isWordChar :: "char \<Rightarrow> bool" where
  "isWordChar c =
     (isDigit c \<or> c \<in> set ''+-.'' \<or>
      c \<in> set ''abcdefghijklmnopqrstuvwxyz'' \<or> c \<in> set ''ABCDEFGHIJKLMNOPQRSTUVWXYZ'')"

definition hexVal :: "char \<Rightarrow> nat option" where
  "hexVal c =
     (if isDigit c then Some (of_char c - 48)
      else if c \<in> set ''abcdef'' then Some (of_char c - 87)
      else if c \<in> set ''ABCDEF'' then Some (of_char c - 55)
      else None)"

datatype lexState =
    LNormal
  | LWord string              \<comment> \<open>in a literal or a number; the code units read, last first\<close>
  | LString string            \<comment> \<open>in a string; its code units, last first\<close>
  | LEscape string            \<comment> \<open>after a backslash in a string\<close>
  | LUnicode string "nat list"  \<comment> \<open>after \<^verbatim>\<open>\u\<close>; the hex digits read\<close>

datatype lexed = Tokens "token list" | LexError | LexOutside

text \<open>A code unit read between tokens: the state after it and the token it is, if any.\<close>

definition normalChar :: "char \<Rightarrow> (lexState \<times> token list) option" where
  "normalChar c =
     (if c \<in> set [CHR 0x20, CHR 0x09, CHR 0x0A, CHR 0x0D] then Some (LNormal, [])
      else if c = CHR ''{'' then Some (LNormal, [TLBrace])
      else if c = CHR ''}'' then Some (LNormal, [TRBrace])
      else if c = CHR ''['' then Some (LNormal, [TLBracket])
      else if c = CHR '']'' then Some (LNormal, [TRBracket])
      else if c = CHR '':'' then Some (LNormal, [TColon])
      else if c = CHR '','' then Some (LNormal, [TComma])
      else if c = CHR 0x22 then Some (LString [], [])
      else if isWordChar c then Some (LWord [c], [])
      else None)"

definition escapeChar :: "char \<Rightarrow> char option" where
  "escapeChar c =
     (if c = CHR 0x22 \<or> c = CHR 0x5C \<or> c = CHR ''/'' then Some c
      else if c = CHR ''b'' then Some (CHR 0x08)
      else if c = CHR ''f'' then Some (CHR 0x0C)
      else if c = CHR ''n'' then Some (CHR 0x0A)
      else if c = CHR ''r'' then Some (CHR 0x0D)
      else if c = CHR ''t'' then Some (CHR 0x09)
      else None)"

text \<open>The lexer; the tokens read so far are kept last first.\<close>

fun lex :: "lexState \<Rightarrow> token list \<Rightarrow> string \<Rightarrow> lexed" where
  "lex LNormal acc [] = Tokens (rev acc)"
| "lex (LWord w) acc [] =
     (case wordToken (rev w) of None \<Rightarrow> LexError | Some t \<Rightarrow> Tokens (rev (t # acc)))"
| "lex (LString _) acc [] = LexError"
| "lex (LEscape _) acc [] = LexError"
| "lex (LUnicode _ _) acc [] = LexError"
| "lex LNormal acc (c # cs) =
     (case normalChar c of None \<Rightarrow> LexError | Some (st, ts) \<Rightarrow> lex st (ts @ acc) cs)"
| "lex (LWord w) acc (c # cs) =
     (if isWordChar c then lex (LWord (c # w)) acc cs
      else
        (case wordToken (rev w) of
           None \<Rightarrow> LexError
         | Some t \<Rightarrow>
             (case normalChar c of None \<Rightarrow> LexError | Some (st, ts) \<Rightarrow> lex st (ts @ t # acc) cs)))"
| "lex (LString str) acc (c # cs) =
     (if c = CHR 0x22 then lex LNormal (TStr (rev str) # acc) cs
      else if c = CHR 0x5C then lex (LEscape str) acc cs
      else if (of_char c :: nat) < 32 then LexError
      else lex (LString (c # str)) acc cs)"
| "lex (LEscape str) acc (c # cs) =
     (if c = CHR ''u'' then lex (LUnicode str []) acc cs
      else (case escapeChar c of None \<Rightarrow> LexError | Some d \<Rightarrow> lex (LString (d # str)) acc cs))"
| "lex (LUnicode str hs) acc (c # cs) =
     (case hexVal c of
        None \<Rightarrow> LexError
      | Some v \<Rightarrow>
          if length hs < 3 then lex (LUnicode str (hs @ [v])) acc cs
          else
            (let code = foldl (\<lambda>a d. a * 16 + d) 0 (hs @ [v])
             in if code < 256 then lex (LString (char_of code # str)) acc cs else LexOutside))"

text \<open>
  The parser. A frame is an array or an object that is open, with what it holds so far;
  FObjV is an object whose member of the given name awaits its value. A name that
  occurs twice keeps its place and takes the later value.
\<close>

datatype frame =
    FArr "json list"
  | FObj "(string \<times> json) list"
  | FObjV "(string \<times> json) list" string

datatype pstate =
    PValue       \<comment> \<open>a value must follow\<close>
  | PValueOrEnd  \<comment> \<open>after \<^verbatim>\<open>[\<close>: a value or \<^verbatim>\<open>]\<close>\<close>
  | PKeyOrEnd    \<comment> \<open>after \<^verbatim>\<open>{\<close>: a name or \<^verbatim>\<open>}\<close>\<close>
  | PKey         \<comment> \<open>after a comma in an object: a name\<close>
  | PColon       \<comment> \<open>after a name: the colon\<close>
  | PAfter       \<comment> \<open>after a value in an array or object: a comma or the end of it\<close>
  | PDone json   \<comment> \<open>the text's value is complete\<close>

definition setMember :: "(string \<times> json) list \<Rightarrow> string \<Rightarrow> json \<Rightarrow> (string \<times> json) list" where
  "setMember ms k v =
     (if k \<in> fst ` set ms then map (\<lambda>(k', v'). if k' = k then (k', v) else (k', v')) ms
      else ms @ [(k, v)])"

text \<open>A value is complete: it is the text's value, or it goes into the frame on top.\<close>

definition complete :: "json \<Rightarrow> frame list \<Rightarrow> (pstate \<times> frame list) option" where
  "complete v st =
     (case st of
        [] \<Rightarrow> Some (PDone v, [])
      | FArr es # st' \<Rightarrow> Some (PAfter, FArr (es @ [v]) # st')
      | FObjV ms k # st' \<Rightarrow> Some (PAfter, FObj (setMember ms k v) # st')
      | FObj ms # st' \<Rightarrow> None)"

definition startValue :: "token \<Rightarrow> frame list \<Rightarrow> (pstate \<times> frame list) option" where
  "startValue t st =
     (case t of
        TStr str \<Rightarrow> complete (JStr str) st
      | TNum m e \<Rightarrow> complete (JNum m e) st
      | TTrue \<Rightarrow> complete (JBool True) st
      | TFalse \<Rightarrow> complete (JBool False) st
      | TNull \<Rightarrow> complete JNull st
      | TLBracket \<Rightarrow> Some (PValueOrEnd, FArr [] # st)
      | TLBrace \<Rightarrow> Some (PKeyOrEnd, FObj [] # st)
      | _ \<Rightarrow> None)"

definition parseStep :: "pstate \<Rightarrow> frame list \<Rightarrow> token \<Rightarrow> (pstate \<times> frame list) option" where
  "parseStep ps st t =
     (case ps of
        PValue \<Rightarrow> startValue t st
      | PValueOrEnd \<Rightarrow>
          (case (t, st) of
             (TRBracket, FArr es # st') \<Rightarrow> complete (JArr es) st'
           | _ \<Rightarrow> startValue t st)
      | PKeyOrEnd \<Rightarrow>
          (case (t, st) of
             (TRBrace, FObj ms # st') \<Rightarrow> complete (JObj ms) st'
           | (TStr k, FObj ms # st') \<Rightarrow> Some (PColon, FObjV ms k # st')
           | _ \<Rightarrow> None)
      | PKey \<Rightarrow>
          (case (t, st) of
             (TStr k, FObj ms # st') \<Rightarrow> Some (PColon, FObjV ms k # st')
           | _ \<Rightarrow> None)
      | PColon \<Rightarrow> (case t of TColon \<Rightarrow> Some (PValue, st) | _ \<Rightarrow> None)
      | PAfter \<Rightarrow>
          (case (t, st) of
             (TComma, FArr es # st') \<Rightarrow> Some (PValue, st)
           | (TRBracket, FArr es # st') \<Rightarrow> complete (JArr es) st'
           | (TComma, FObj ms # st') \<Rightarrow> Some (PKey, st)
           | (TRBrace, FObj ms # st') \<Rightarrow> complete (JObj ms) st'
           | _ \<Rightarrow> None)
      | PDone v \<Rightarrow> None)"

fun parseTokens :: "pstate \<Rightarrow> frame list \<Rightarrow> token list \<Rightarrow> json option" where
  "parseTokens ps st [] = (case ps of PDone v \<Rightarrow> Some v | _ \<Rightarrow> None)"
| "parseTokens ps st (t # ts) =
     (case parseStep ps st t of None \<Rightarrow> None | Some (ps', st') \<Rightarrow> parseTokens ps' st' ts)"

datatype parsed = Parsed json | SyntaxErr | NotRepresentable

definition JSON_parse :: "string \<Rightarrow> parsed" where
  "JSON_parse txt =
     (case lex LNormal [] txt of
        LexError \<Rightarrow> SyntaxErr
      | LexOutside \<Rightarrow> NotRepresentable
      | Tokens ts \<Rightarrow> (case parseTokens PValue [] ts of None \<Rightarrow> SyntaxErr | Some v \<Rightarrow> Parsed v))"

subsection \<open>Schemas\<close>

text \<open>
  The JSON Schemas that this program passes to sendToLLM use objects with listed
  properties, required names and \<^verbatim>\<open>additionalProperties\<close>, arrays with an item schema,
  strings (with or without an \<^verbatim>\<open>enum\<close>), integers and numbers with optional bounds,
  and booleans. \<open>validates\<close> is validity of a value against such a schema, as JSON
  Schema defines it; nothing in the program computes it.
\<close>

datatype schema =
    SObject "(string \<times> schema) list" "string list" bool
  | SArray schema
  | SString "string list option"
  | SInteger "int option" "int option"
  | SNumber "int option" "int option"
  | SBoolean

definition numIsInteger :: "int \<Rightarrow> int \<Rightarrow> bool" where
  "numIsInteger m e = (0 \<le> e \<or> m mod 10 ^ nat (- e) = 0)"

definition numAtLeast :: "int \<Rightarrow> int \<Rightarrow> int option \<Rightarrow> bool" where
  "numAtLeast m e lo =
     (case lo of None \<Rightarrow> True
      | Some b \<Rightarrow> if 0 \<le> e then b \<le> m * 10 ^ nat e else b * 10 ^ nat (- e) \<le> m)"

definition numAtMost :: "int \<Rightarrow> int \<Rightarrow> int option \<Rightarrow> bool" where
  "numAtMost m e hi =
     (case hi of None \<Rightarrow> True
      | Some b \<Rightarrow> if 0 \<le> e then m * 10 ^ nat e \<le> b else m \<le> b * 10 ^ nat (- e))"

fun validates :: "schema \<Rightarrow> json \<Rightarrow> bool" where
  "validates (SObject props required additional) j =
     (case j of
        JObj ms \<Rightarrow>
          list_all (\<lambda>k. k \<in> fst ` set ms) required \<and>
          (additional \<or> list_all (\<lambda>(k, v). k \<in> fst ` set props) ms) \<and>
          list_all (\<lambda>(k, v). case map_of props k of None \<Rightarrow> True | Some sch \<Rightarrow> validates sch v) ms
      | _ \<Rightarrow> False)"
| "validates (SArray sch) j =
     (case j of JArr vs \<Rightarrow> list_all (validates sch) vs | _ \<Rightarrow> False)"
| "validates (SString enum) j =
     (case j of
        JStr str \<Rightarrow> (case enum of None \<Rightarrow> True | Some allowed \<Rightarrow> str \<in> set allowed)
      | _ \<Rightarrow> False)"
| "validates (SInteger lo hi) j =
     (case j of JNum m e \<Rightarrow> numIsInteger m e \<and> numAtLeast m e lo \<and> numAtMost m e hi | _ \<Rightarrow> False)"
| "validates (SNumber lo hi) j =
     (case j of JNum m e \<Rightarrow> numAtLeast m e lo \<and> numAtMost m e hi | _ \<Rightarrow> False)"
| "validates SBoolean j = (case j of JBool _ \<Rightarrow> True | _ \<Rightarrow> False)"

subsection \<open>sendToLLM\<close>

text \<open>
  The request that sendToLLM builds; \<open>text_format\<close> is the source's
  \<^verbatim>\<open>options.text.format\<close>, present when a schema was given.
\<close>

record message =
  msg_role :: string
  content :: string

record textFormat =
  format_name :: string
  format_type :: string
  format_schema :: schema
  strict :: bool

record options =
  model :: string
  tools :: "string list"
  temperature :: real
  instructions :: "string option"
  messages :: "message list"
  text_format :: "textFormat option"

text \<open>The settings read from the environment, and the argument of sendToLLM.\<close>

record settings =
  MODEL :: string
  TEMPERATURE :: real
  DEBUG :: bool

record sendArgs =
  arg_instructions :: "string option"
  arg_input :: "message list"
  arg_schema :: "schema option"
  arg_temperature :: "real option"

datatype payload = Text string | Structured json

datatype debugLine = Sending options | Response string

definition request :: "settings \<Rightarrow> sendArgs \<Rightarrow> options" where
  "request cfg args =
     \<lparr>model = MODEL cfg,
      tools = [''web_search_preview''],
      temperature = (case arg_temperature args of None \<Rightarrow> TEMPERATURE cfg | Some t \<Rightarrow> t),
      instructions = (case arg_instructions args of None \<Rightarrow> None
                      | Some i \<Rightarrow> if i = [] then None else Some i),
      messages = arg_input args,
      text_format =
        (case arg_schema args of
           None \<Rightarrow> None
         | Some sch \<Rightarrow>
             Some \<lparr>format_name = ''structured_output'', format_type = ''json_schema'',
                   format_schema = sch, strict = True\<rparr>)\<rparr>"

text \<open>
  sendToLLM. The parameter \<open>create\<close> is \<^verbatim>\<open>client.responses.create\<close>: for a request it
  throws, or it gives the \<^verbatim>\<open>output_text\<close> of the response.
  \<^verbatim>\<open>return schema ? JSON.parse(res.output_text) : res.output_text;\<close>
\<close>

definition sendToLLM ::
    "(options \<Rightarrow> error + string) \<Rightarrow> settings \<Rightarrow> sendArgs \<Rightarrow> debugLine list \<times> payload result" where
  "sendToLLM create cfg args =
     (let opts = request cfg args;
          sent = (if DEBUG cfg then [Sending opts] else [])
      in case create opts of
           Inl e \<Rightarrow> (sent, Threw e)
         | Inr output_text \<Rightarrow>
             (let logged = sent @ (if DEBUG cfg then [Response output_text] else [])
              in case arg_schema args of
                   None \<Rightarrow> (logged, Returned (Text output_text))
                 | Some sch \<Rightarrow>
                     (case JSON_parse output_text of
                        Parsed j \<Rightarrow> (logged, Returned (Structured j))
                      | SyntaxErr \<Rightarrow> (logged, Threw SyntaxError)
                      | NotRepresentable \<Rightarrow> (logged, OutsideModel))))"

text \<open>
  The schema and the argument of assessSkillRelevanceToNewJob (with the prompt
  shortened), and settings, as example data.
\<close>

definition scoreSchema :: schema where
  "scoreSchema =
     SObject [(''score'', SInteger (Some 1) (Some 10)), (''rationale'', SString None)]
       [''score'', ''rationale''] False"

definition exampleArgs :: sendArgs where
  "exampleArgs =
     \<lparr>arg_instructions = None,
      arg_input = [\<lparr>msg_role = ''system'', content = ''Return JSON only.''\<rparr>,
                   \<lparr>msg_role = ''user'', content = ''Please rate the relevance''\<rparr>],
      arg_schema = Some scoreSchema,
      arg_temperature = None\<rparr>"

definition exampleSettings :: settings where
  "exampleSettings = \<lparr>MODEL = ''gpt-4o-mini'', TEMPERATURE = 3 / 10, DEBUG = False\<rparr>"

section \<open>Properties\<close>

subsection \<open>The index list of a delete command\<close>

lemma rangeStep_code [code]:
  "rangeStep True mx i fin s =
     rangeLoop mx (roundInt (i + 1)) fin (if 1 \<le> i \<and> i \<le> int mx then setAdd s (nat (i - 1)) else s)"
  "rangeStep False mx i fin s = Some s"
  by (simp_all add: rangeStep_def)

lemma rangeLoop_code [code]: "rangeLoop mx i fin s = rangeStep (i \<le> fin) mx i fin s"
  by (subst rangeLoop.simps) (simp add: rangeStep_def)

text \<open>Below \<open>2 ^ 53\<close> in size an integer is a double, and the counter counts exactly.\<close>

lemma roundInt_top:
  "roundInt (2 ^ 53) = 2 ^ 53" "roundInt (2 ^ 53 + 1) = 2 ^ 53" "roundInt (- (2 ^ 53)) = - (2 ^ 53)"
  by code_simp+

lemma roundInt_exact:
  assumes "- (2 ^ 53) \<le> z" and "z \<le> 2 ^ 53"
  shows "roundInt z = z"
proof -
  consider "z = 2 ^ 53" | "z = - (2 ^ 53)" | "- (2 ^ 53) < z \<and> z < 2 ^ 53"
    using assms by fastforce
  then show ?thesis
  proof cases
    case 1
    then show ?thesis by (simp only: roundInt_top)
  next
    case 2
    then show ?thesis by (simp only: roundInt_top)
  next
    case 3
    then show ?thesis by (simp add: roundInt_def round53_def)
  qed
qed

lemma round53_nonneg: "0 \<le> n \<Longrightarrow> 0 \<le> round53 n"
  by (auto simp: round53_def Let_def pos_imp_zdiv_nonneg_iff intro!: mult_nonneg_nonneg add_nonneg_nonneg)

text \<open>
  A range whose bounds are below \<open>2 ^ 53\<close> in size is run through once, in order, and
  the loop returns.
\<close>

lemma rangeLoop_exact:
  assumes "- (2 ^ 53) \<le> i" and "fin < 2 ^ 53"
  shows "rangeLoop mx i fin s =
           Some (fold (\<lambda>i s. if 1 \<le> i \<and> i \<le> int mx then setAdd s (nat (i - 1)) else s) [i..fin] s)"
  using assms
proof (induction "nat (fin + 1 - i)" arbitrary: i s)
  case 0
  then have "\<not> i \<le> fin" by simp
  then show ?case by (subst rangeLoop.simps) simp
next
  case (Suc n)
  then have le: "i \<le> fin" by simp
  have next_i: "roundInt (i + 1) = i + 1"
    using Suc.prems le by (intro roundInt_exact) simp_all
  have n: "n = nat (fin + 1 - (i + 1))" using Suc.hyps(2) by simp
  have up: "[i..fin] = i # [i + 1..fin]" using le by (simp add: upto_rec1)
  have "rangeLoop mx i fin s =
          rangeLoop mx (i + 1) fin (if 1 \<le> i \<and> i \<le> int mx then setAdd s (nat (i - 1)) else s)"
    using le next_i by (subst rangeLoop.simps) simp
  also have "\<dots> = Some (fold (\<lambda>i s. if 1 \<le> i \<and> i \<le> int mx then setAdd s (nat (i - 1)) else s)
                          [i + 1..fin] (if 1 \<le> i \<and> i \<le> int mx then setAdd s (nat (i - 1)) else s))"
    using Suc.prems by (intro Suc.hyps(1) [OF n]) simp_all
  finally show ?case by (simp add: up)
qed

text \<open>
  A range that starts at or below \<open>2 ^ 53\<close> and ends at or above it is never run
  through: the counter reaches \<open>2 ^ 53\<close> and stays there.
\<close>

lemma rangeLoop_returns_only_below:
  assumes returns: "rangeLoop mx i fin s = Some y"
  shows "\<not> (i \<le> 2 ^ 53 \<and> 2 ^ 53 \<le> fin)"
proof (rule rangeLoop.raw_induct
    [where P = "\<lambda>mx i fin s y. \<not> (i \<le> 2 ^ 53 \<and> 2 ^ 53 \<le> fin)", OF _ returns])
  fix f :: "nat \<Rightarrow> int \<Rightarrow> int \<Rightarrow> nat list \<Rightarrow> nat list option"
  fix mx i fin s y
  assume ih: "\<And>mx i fin s y. f mx i fin s = Some y \<Longrightarrow> \<not> (i \<le> 2 ^ 53 \<and> 2 ^ 53 \<le> fin)"
  assume eq: "(if i \<le> fin
      then f mx (roundInt (i + 1)) fin (if 1 \<le> i \<and> i \<le> int mx then setAdd s (nat (i - 1)) else s)
      else Some s) = Some y"
  show "\<not> (i \<le> 2 ^ 53 \<and> 2 ^ 53 \<le> fin)"
  proof
    assume a: "i \<le> 2 ^ 53 \<and> 2 ^ 53 \<le> fin"
    then have le: "i \<le> fin" by simp
    have next_le: "roundInt (i + 1) \<le> 2 ^ 53"
    proof (cases "i < 2 ^ 53 - 1")
      case small: True
      show ?thesis
      proof (cases "- (2 ^ 53) < i + 1")
        case True
        with small show ?thesis using roundInt_exact [of "i + 1"] by simp
      next
        case False
        then have neg: "i + 1 < 0" by simp
        then have "roundInt (i + 1) = - round53 (- (i + 1))" by (simp add: roundInt_def)
        moreover have "0 \<le> round53 (- (i + 1))"
          using neg by (intro round53_nonneg) simp
        ultimately show ?thesis by simp
      qed
    next
      case False
      with a have "i + 1 = 2 ^ 53 \<or> i + 1 = 2 ^ 53 + 1" by auto
      then show ?thesis using roundInt_top by auto
    qed
    from eq le have step: "f mx (roundInt (i + 1)) fin
              (if 1 \<le> i \<and> i \<le> int mx then setAdd s (nat (i - 1)) else s) = Some y"
      by simp
    from ih [OF step] next_le a show False by simp
  qed
qed

lemma rangeLoop_stuck: "i \<le> 2 ^ 53 \<Longrightarrow> 2 ^ 53 \<le> fin \<Longrightarrow> rangeLoop mx i fin s = None"
  using rangeLoop_returns_only_below [of mx i fin s] by (cases "rangeLoop mx i fin s") auto

lemma removeIndices_eq:
  "removeIndices idxs list = map (\<lambda>i. list ! i) (filter (\<lambda>i. i \<notin> set idxs) [0..<length list])"
proof -
  have "enumerate 0 list = map (\<lambda>i. (i, list ! i)) [0..<length list]"
    by (rule nth_equalityI) (simp_all add: nth_enumerate_eq)
  then show ?thesis
    by (simp add: removeIndices_def filter_map comp_def)
qed

subsection \<open>The review loop\<close>

lemma snd_emit: "snd (emit out r) = snd r"
  by (simp add: emit_def)

text \<open>
  A session that has left the loop waiting at its prompt goes on from there with the
  lines that follow.
\<close>

lemma reviewLoop_append:
  "snd (reviewLoop l pre) = AwaitCommand l' \<Longrightarrow>
   snd (reviewLoop l (pre @ post)) = snd (reviewLoop l' post)"
proof (induction l pre rule: reviewLoop.induct)
  case (1 list)
  then show ?case by simp
next
  case (2 list answer ins)
  obtain out st where rc: "reviewCommand list answer = (out, st)"
    by (cases "reviewCommand list answer")
  show ?case
  proof (cases st)
    case (Return r)
    with rc "2.prems" show ?thesis by (simp add: snd_emit)
  next
    case (Continue list')
    with rc "2.prems" "2.IH"(1) [of out st list'] show ?thesis
      by (simp add: snd_emit)
  next
    case (AskEdit idx)
    show ?thesis
    proof (cases ins)
      case Nil
      with rc AskEdit "2.prems" show ?thesis by (simp add: snd_emit ask_def)
    next
      case (Cons newText ins')
      have a: "ask (suggestion (list ! idx)) ins =
                 ([Prefill (suggestion (list ! idx))], Some (newText, ins'))"
        by (simp add: ask_def Cons)
      from rc AskEdit "2.prems" Cons
      have p: "snd (reviewLoop (reviewEdit list idx newText) ins') = AwaitCommand l'"
        by (simp add: snd_emit ask_def)
      have "snd (reviewLoop (reviewEdit list idx newText) (ins' @ post)) = snd (reviewLoop l' post)"
        by (rule "2.IH"(2) [OF rc [symmetric] AskEdit a [symmetric] refl refl p])
      with rc AskEdit Cons show ?thesis
        by (simp add: snd_emit ask_def)
    qed
  next
    case Hang
    with rc "2.prems" show ?thesis by (simp add: snd_emit)
  qed
qed

lemma command_not_blank: "fst (splitCommand (trim answer)) \<noteq> [] \<Longrightarrow> trim answer \<noteq> []"
  by (auto simp: splitCommand_def)

lemma reviewCommand_q:
  "fst (splitCommand (trim answer)) = ''q'' \<Longrightarrow> reviewCommand list answer = ([], Return [])"
  using command_not_blank [of answer] by (simp add: reviewCommand_def Let_def)

lemma reviewCommand_c:
  "fst (splitCommand (trim answer)) = ''c'' \<Longrightarrow> reviewCommand list answer = ([], Return list)"
  using command_not_blank [of answer] by (simp add: reviewCommand_def Let_def)

text \<open>
  Claim C4. Whatever the suggestions were at the start and whatever lines the session
  has taken so far (deletions, edits and their texts, blank and unknown lines), when the
  loop is at its prompt a line whose command is \<open>q\<close> makes
  reviewSuggestionsInteractively return the empty list.
\<close>

theorem quit_returns_empty:
  assumes "snd (reviewSuggestionsInteractively suggestions pre) = AwaitCommand list"
      and "fst (splitCommand (trim answer)) = ''q''"
  shows "snd (reviewSuggestionsInteractively suggestions (pre @ answer # post)) = Returned []"
  using reviewLoop_append [of suggestions pre list "answer # post"] assms
  by (simp add: reviewSuggestionsInteractively_def reviewCommand_q snd_emit)

theorem quit_returns_empty_witness:
  "snd (reviewSuggestionsInteractively
          [\<lparr>kind = ''typo'', location = ''A'', suggestion = ''one''\<rparr>,
           \<lparr>kind = ''tone'', location = ''B'', suggestion = ''two''\<rparr>]
          [''d 2'', ''e 1'', ''q'']) =
     AwaitCommand [\<lparr>kind = ''typo'', location = ''A'', suggestion = ''q''\<rparr>] \<and>
   fst (splitCommand (trim '' q now'')) = ''q'' \<and>
   snd (reviewSuggestionsInteractively
          [\<lparr>kind = ''typo'', location = ''A'', suggestion = ''one''\<rparr>,
           \<lparr>kind = ''tone'', location = ''B'', suggestion = ''two''\<rparr>]
          ([''d 2'', ''e 1'', ''q''] @ '' q now'' # [''c''])) = Returned []"
proof -
  have a: "snd (reviewSuggestionsInteractively
          [\<lparr>kind = ''typo'', location = ''A'', suggestion = ''one''\<rparr>,
           \<lparr>kind = ''tone'', location = ''B'', suggestion = ''two''\<rparr>]
          [''d 2'', ''e 1'', ''q'']) =
     AwaitCommand [\<lparr>kind = ''typo'', location = ''A'', suggestion = ''q''\<rparr>]"
    by code_simp
  have b: "fst (splitCommand (trim '' q now'')) = ''q''"
    by code_simp
  from quit_returns_empty [OF a b, of "[''c'']"] a b show ?thesis by blast
qed

lemma reviewCommand_hang:
  assumes "splitCommand (trim answer) = (''d'', rest)" and "rest \<noteq> ''a''"
      and "parseIndexList rest (length list) = None"
  shows "reviewCommand list answer = ([], Hang)"
  using command_not_blank [of answer] assms by (simp add: reviewCommand_def Let_def)

lemma reviewCommand_d:
  assumes "splitCommand (trim answer) = (''d'', rest)" and "rest \<noteq> ''a''"
      and "parseIndexList rest (length list) = Some idxs"
  shows "reviewCommand list answer =
           (if idxs = [] then ([Log ''No valid indices.''], Continue list)
            else ([], Continue (removeIndices idxs list)))"
  using command_not_blank [of answer] assms by (simp add: reviewCommand_def Let_def)

text \<open>
  Claim C6 is what the code sets out to do, and the code fails it on a range that
  reaches \<open>2 ^ 53\<close>. With three suggestions, the line \<^verbatim>\<open>d 1,5-9007199254740992\<close>
  names the index 1, which is in bounds, and numbers that are all out of bounds.
  parseIndexList does not return for it, since the counter of the range stays at
  \<open>2 ^ 53\<close>: suggestion 1 is not removed and the review never comes back to its prompt,
  whatever line follows. The same index beside the same number as a single index is
  honoured, and the number ignored: \<^verbatim>\<open>d 1,9007199254740992\<close> removes suggestion 1.
\<close>

theorem delete_range_never_returns:
  "splitCommand (trim ''d 1,5-9007199254740992'') = (''d'', ''1,5-9007199254740992'') \<and>
   parseIndexList ''1,5-9007199254740992'' 3 = None \<and>
   snd (reviewSuggestionsInteractively
          [\<lparr>kind = ''typo'', location = ''A'', suggestion = ''one''\<rparr>,
           \<lparr>kind = ''tone'', location = ''B'', suggestion = ''two''\<rparr>,
           \<lparr>kind = ''other'', location = ''C'', suggestion = ''three''\<rparr>]
          [''d 1,5-9007199254740992'', ''c'']) = Diverges \<and>
   parseIndexList ''1,9007199254740992'' 3 = Some [0] \<and>
   snd (reviewSuggestionsInteractively
          [\<lparr>kind = ''typo'', location = ''A'', suggestion = ''one''\<rparr>,
           \<lparr>kind = ''tone'', location = ''B'', suggestion = ''two''\<rparr>,
           \<lparr>kind = ''other'', location = ''C'', suggestion = ''three''\<rparr>]
          [''d 1,9007199254740992'', ''c'']) =
     Returned [\<lparr>kind = ''tone'', location = ''B'', suggestion = ''two''\<rparr>,
               \<lparr>kind = ''other'', location = ''C'', suggestion = ''three''\<rparr>]"
proof -
  let ?list = "[\<lparr>kind = ''typo'', location = ''A'', suggestion = ''one''\<rparr>,
                \<lparr>kind = ''tone'', location = ''B'', suggestion = ''two''\<rparr>,
                \<lparr>kind = ''other'', location = ''C'', suggestion = ''three''\<rparr>]"
  have a: "splitCommand (trim ''d 1,5-9007199254740992'') = (''d'', ''1,5-9007199254740992'')"
    by code_simp
  have parts: "splitComma ''1,5-9007199254740992'' = [''1'', ''5-9007199254740992'']"
    by code_simp
  have one: "addPart 3 [] ''1'' = Some [0]"
    by code_simp
  have bounds: "rangeBounds ''5-9007199254740992'' = Some (5, 2 ^ 53)"
    by code_simp
  have "addPart 3 [0] ''5-9007199254740992'' = rangeLoop 3 5 (2 ^ 53) [0]"
    by (simp add: addPart_def bounds)
  also have "\<dots> = None"
    by (rule rangeLoop_stuck) simp_all
  finally have range: "addPart 3 [0] ''5-9007199254740992'' = None" .
  have b: "parseIndexList ''1,5-9007199254740992'' 3 = None"
    unfolding parseIndexList_def parts by (simp add: one range)
  have "parseIndexList ''1,5-9007199254740992'' (length ?list) = None"
    using b by (simp add: numeral_3_eq_3)
  then have "reviewCommand ?list ''d 1,5-9007199254740992'' = ([], Hang)"
    by (intro reviewCommand_hang [OF a]) simp_all
  then have c: "snd (reviewSuggestionsInteractively ?list [''d 1,5-9007199254740992'', ''c'']) = Diverges"
    by (simp add: reviewSuggestionsInteractively_def snd_emit)
  have d: "parseIndexList ''1,9007199254740992'' 3 = Some [0]"
    by code_simp
  have e: "snd (reviewSuggestionsInteractively ?list [''d 1,9007199254740992'', ''c'']) =
     Returned [\<lparr>kind = ''tone'', location = ''B'', suggestion = ''two''\<rparr>,
               \<lparr>kind = ''other'', location = ''C'', suggestion = ''three''\<rparr>]"
    by code_simp
  from a b c d e show ?thesis by (intro conjI)
qed

lemma reviewEdit_frame:
  assumes "idx < length list"
  shows "length (reviewEdit list idx newText) = length list"
    and "j \<noteq> idx \<Longrightarrow> reviewEdit list idx newText ! j = list ! j"
    and "kind (reviewEdit list idx newText ! idx) = kind (list ! idx)"
    and "location (reviewEdit list idx newText ! idx) = location (list ! idx)"
    and "suggestion (reviewEdit list idx newText ! idx) =
           (if trim newText = [] then suggestion (list ! idx) else trim newText)"
    and "trim newText = [] \<Longrightarrow> reviewEdit list idx newText = list"
  using assms by (simp_all add: reviewEdit_def Let_def)

lemma reviewCommand_e:
  assumes "splitCommand (trim answer) = (''e'', rest)"
  shows "reviewCommand list answer =
           (case minusOne (parseInt rest) of
              Num idx \<Rightarrow>
                if idx < 0 \<or> int (length list) \<le> idx then ([Log ''Out of range.''], Continue list)
                else ([Editing (nat idx + 1), Current (suggestion (list ! nat idx))],
                      AskEdit (nat idx))
            | _ \<Rightarrow> ([Log ''Out of range.''], Continue list))"
  using command_not_blank [of answer] assms by (simp add: reviewCommand_def Let_def)

text \<open>What parseInt reads from a decimal numeral and what follows it.\<close>

lemmas decimal_simps = decimal.simps

declare decimal.simps [simp del]

lemma digitChar_digit:
  assumes "d < 10"
  shows "isDigit (digitChar d)" and "digitVal (digitChar d) = int d"
    and "\<not> isSpace (digitChar d)" and "digitChar d \<noteq> CHR ''-''" and "digitChar d \<noteq> CHR ''+''"
proof -
  from assms have "d \<in> {0, 1, 2, 3, 4, 5, 6, 7, 8, 9}" by auto
  then show "isDigit (digitChar d)" and "digitVal (digitChar d) = int d"
    and "\<not> isSpace (digitChar d)" and "digitChar d \<noteq> CHR ''-''" and "digitChar d \<noteq> CHR ''+''"
    by (auto simp: digitChar_def isDigit_def digitVal_def isSpace_def)
qed

lemma decimal_digits: "list_all isDigit (decimal n)"
  by (induction n rule: decimal.induct) (subst decimal_simps, simp add: digitChar_digit)

lemma decimal_hd: "\<exists>d cs. d < 10 \<and> decimal n = digitChar d # cs"
proof (induction n rule: decimal.induct)
  case (1 n)
  show ?case
  proof (cases "n < 10")
    case True
    then show ?thesis by (subst decimal_simps) auto
  next
    case False
    with 1 obtain d cs where "d < 10" "decimal (n div 10) = digitChar d # cs" by blast
    with False show ?thesis by (subst decimal_simps) auto
  qed
qed

lemma digitsValue_snoc: "digitsValue (z @ [c]) = digitsValue z * 10 + digitVal c"
  by (simp add: digitsValue_def)

lemma digitsValue_decimal: "digitsValue (decimal n) = int n"
proof (induction n rule: decimal.induct)
  case (1 n)
  show ?case
  proof (cases "n < 10")
    case True
    then show ?thesis
      by (subst decimal_simps) (simp add: digitsValue_def digitChar_digit)
  next
    case False
    then have "digitsValue (decimal n) = digitsValue (decimal (n div 10)) * 10 + int (n mod 10)"
      by (subst decimal_simps) (simp add: digitsValue_snoc digitChar_digit)
    also have "\<dots> = int (n div 10) * 10 + int (n mod 10)"
      using 1 False by simp
    also have "\<dots> = int n" by (simp add: zdiv_int zmod_int)
    finally show ?thesis .
  qed
qed

lemma parseInt_decimal:
  assumes "tail = [] \<or> hd tail \<notin> set ''0123456789''"
  shows "parseInt (decimal n @ tail) = toNumber (int n)"
proof -
  obtain d cs where d: "d < 10" and dec: "decimal n = digitChar d # cs"
    using decimal_hd by blast
  have t: "takeWhile isDigit tail = []"
    using assms by (cases tail) (auto simp: isDigit_def)
  have "takeWhile isDigit (decimal n @ tail) = decimal n"
    using decimal_digits [of n] t by (simp add: takeWhile_append2 list_all_iff)
  then have z: "takeWhile isDigit (digitChar d # cs @ tail) = digitChar d # cs"
    by (simp add: dec)
  show ?thesis
    using z digitsValue_decimal [of n] digitChar_digit [OF d]
    by (simp add: parseInt_def dec Let_def)
qed

lemma toNumber_exact: "- (2 ^ 53) \<le> z \<Longrightarrow> z \<le> 2 ^ 53 \<Longrightarrow> toNumber z = Num z"
  by (simp add: toNumber_def roundInt_exact Let_def)

lemma parseInt_no_digit:
  assumes "rest = [] \<or>
           hd rest \<notin> set (''0123456789+-'' @
                              [CHR 0x09, CHR 0x0A, CHR 0x0B, CHR 0x0C, CHR 0x0D, CHR 0x20, CHR 0xA0])"
  shows "parseInt rest = NaN"
proof (cases rest)
  case Nil
  then show ?thesis by (simp add: parseInt_def)
next
  case (Cons c cs)
  with assms have "\<not> isSpace c" "\<not> isDigit c" "c \<noteq> CHR ''-''" "c \<noteq> CHR ''+''"
    by (auto simp: isSpace_def isDigit_def)
  with Cons show ?thesis by (simp add: parseInt_def)
qed

text \<open>
  Claim C8, as stated, fails. An index that is not an integer is not reported: for the
  line \<^verbatim>\<open>e 1.9\<close> nothing is logged as out of range, the question for the new text
  is put for suggestion 1, and the answer replaces its text. And an empty replacement
  does not always keep the existing text: the question is put with the existing text
  written into the input line, so Enter alone sends that text back, and the text
  \<open>'' padded''\<close> of suggestion 2 becomes \<open>''padded''\<close>.
\<close>

theorem edit_fraction_taken_as_index_counterexample:
  "reviewLoop [\<lparr>kind = ''typo'', location = ''A'', suggestion = ''one''\<rparr>,
               \<lparr>kind = ''tone'', location = ''B'', suggestion = '' padded''\<rparr>] [''e 1.9''] =
     ([Suggestions [\<lparr>kind = ''typo'', location = ''A'', suggestion = ''one''\<rparr>,
                    \<lparr>kind = ''tone'', location = ''B'', suggestion = '' padded''\<rparr>],
       Log commandsHelp, Editing 1, Current ''one'', Prefill ''one''],
      AwaitEdit [\<lparr>kind = ''typo'', location = ''A'', suggestion = ''one''\<rparr>,
                 \<lparr>kind = ''tone'', location = ''B'', suggestion = '' padded''\<rparr>] 0) \<and>
   snd (reviewLoop [\<lparr>kind = ''typo'', location = ''A'', suggestion = ''one''\<rparr>,
                    \<lparr>kind = ''tone'', location = ''B'', suggestion = '' padded''\<rparr>]
          [''e 1.9'', ''uno'', ''c'']) =
     Returned [\<lparr>kind = ''typo'', location = ''A'', suggestion = ''uno''\<rparr>,
               \<lparr>kind = ''tone'', location = ''B'', suggestion = '' padded''\<rparr>] \<and>
   snd (reviewLoop [\<lparr>kind = ''typo'', location = ''A'', suggestion = ''one''\<rparr>,
                    \<lparr>kind = ''tone'', location = ''B'', suggestion = '' padded''\<rparr>]
          [''e 2'', '' padded'', ''c'']) =
     Returned [\<lparr>kind = ''typo'', location = ''A'', suggestion = ''one''\<rparr>,
               \<lparr>kind = ''tone'', location = ''B'', suggestion = ''padded''\<rparr>]"
  by code_simp

text \<open>
  Claim C8, amended. For an \<open>e\<close> command the index is the integer that parseInt reads
  at the start of the argument, less one: an argument that starts with the decimal
  numeral of \<open>n\<close>, followed by nothing or by something that is not a digit, selects
  element \<open>n\<close> (so \<^verbatim>\<open>1.9\<close> and \<^verbatim>\<open>1x\<close> select element 1), and an argument that is
  empty or starts with neither a digit, a sign nor white space reads as no number.

  When the index is one of the list, nothing is logged as an error; the current text is
  shown and written into the input line, and the question is put. With the line that
  answers it the loop goes on with a list of the same length in which every other
  element is unchanged and the chosen element keeps its kind and location; its text is
  the trimmed line, or the old text when the line is blank after trimming (then the
  whole list is unchanged). When the argument reads as no number, or as an index
  outside the list, \<open>Out of range.\<close> is logged and the loop goes on with the list
  unchanged.
\<close>

theorem edit_replaces_only_text:
  assumes "splitCommand (trim answer) = (''e'', rest)"
  shows "(\<forall>idx. minusOne (parseInt rest) = Num idx \<and> 0 \<le> idx \<and> idx < int (length list) \<longrightarrow>
            (let i = nat idx; list' = reviewEdit list i newText in
               reviewLoop list [answer] =
                 ([Suggestions list, Log commandsHelp, Editing (i + 1),
                   Current (suggestion (list ! i)), Prefill (suggestion (list ! i))],
                  AwaitEdit list i) \<and>
               snd (reviewLoop list (answer # newText # ins)) = snd (reviewLoop list' ins) \<and>
               length list' = length list \<and>
               (\<forall>j<length list. j \<noteq> i \<longrightarrow> list' ! j = list ! j) \<and>
               kind (list' ! i) = kind (list ! i) \<and>
               location (list' ! i) = location (list ! i) \<and>
               suggestion (list' ! i) =
                 (if trim newText = [] then suggestion (list ! i) else trim newText) \<and>
               (trim newText = [] \<longrightarrow> list' = list))) \<and>
         (\<not> (\<exists>idx. minusOne (parseInt rest) = Num idx \<and> 0 \<le> idx \<and> idx < int (length list)) \<longrightarrow>
            reviewCommand list answer = ([Log ''Out of range.''], Continue list) \<and>
            snd (reviewLoop list (answer # ins)) = snd (reviewLoop list ins)) \<and>
         (\<forall>n tail. rest = decimal n @ tail \<and> n < 2 ^ 53 \<and>
                   (tail = [] \<or> hd tail \<notin> set ''0123456789'') \<longrightarrow>
            minusOne (parseInt rest) = Num (int n - 1)) \<and>
         (rest = [] \<or>
          hd rest \<notin> set (''0123456789+-'' @
                             [CHR 0x09, CHR 0x0A, CHR 0x0B, CHR 0x0C, CHR 0x0D, CHR 0x20, CHR 0xA0]) \<longrightarrow>
            minusOne (parseInt rest) = NaN)"
proof (intro conjI allI impI)
  fix idx
  assume idx: "minusOne (parseInt rest) = Num idx \<and> 0 \<le> idx \<and> idx < int (length list)"
  then have i: "nat idx < length list" by auto
  have rc: "reviewCommand list answer =
           ([Editing (nat idx + 1), Current (suggestion (list ! nat idx))], AskEdit (nat idx))"
    using idx by (simp add: reviewCommand_e [OF assms])
  have waits: "reviewLoop list [answer] =
                 ([Suggestions list, Log commandsHelp, Editing (nat idx + 1),
                   Current (suggestion (list ! nat idx)), Prefill (suggestion (list ! nat idx))],
                  AwaitEdit list (nat idx))"
    by (simp add: rc ask_def emit_def)
  have loop: "snd (reviewLoop list (answer # newText # ins)) =
              snd (reviewLoop (reviewEdit list (nat idx) newText) ins)"
    by (simp add: rc snd_emit ask_def)
  show "let i = nat idx; list' = reviewEdit list i newText in
               reviewLoop list [answer] =
                 ([Suggestions list, Log commandsHelp, Editing (i + 1),
                   Current (suggestion (list ! i)), Prefill (suggestion (list ! i))],
                  AwaitEdit list i) \<and>
               snd (reviewLoop list (answer # newText # ins)) = snd (reviewLoop list' ins) \<and>
               length list' = length list \<and>
               (\<forall>j<length list. j \<noteq> i \<longrightarrow> list' ! j = list ! j) \<and>
               kind (list' ! i) = kind (list ! i) \<and>
               location (list' ! i) = location (list ! i) \<and>
               suggestion (list' ! i) =
                 (if trim newText = [] then suggestion (list ! i) else trim newText) \<and>
               (trim newText = [] \<longrightarrow> list' = list)"
    unfolding Let_def
    using waits loop reviewEdit_frame [OF i, where newText = newText] by blast
next
  assume out: "\<not> (\<exists>idx. minusOne (parseInt rest) = Num idx \<and> 0 \<le> idx \<and> idx < int (length list))"
  then show rc: "reviewCommand list answer = ([Log ''Out of range.''], Continue list)"
    by (cases "minusOne (parseInt rest)") (auto simp: reviewCommand_e [OF assms])
  then show "snd (reviewLoop list (answer # ins)) = snd (reviewLoop list ins)"
    by (simp add: snd_emit)
next
  fix n tail
  assume a: "rest = decimal n @ tail \<and> n < 2 ^ 53 \<and> (tail = [] \<or> hd tail \<notin> set ''0123456789'')"
  then have "parseInt rest = toNumber (int n)"
    using parseInt_decimal [of tail n] by blast
  moreover have "toNumber (int n) = Num (int n)"
    using a by (intro toNumber_exact) simp_all
  moreover have "toNumber (int n - 1) = Num (int n - 1)"
    using a by (intro toNumber_exact) simp_all
  ultimately show "minusOne (parseInt rest) = Num (int n - 1)"
    by (simp add: minusOne_def)
next
  assume "rest = [] \<or>
          hd rest \<notin> set (''0123456789+-'' @
                             [CHR 0x09, CHR 0x0A, CHR 0x0B, CHR 0x0C, CHR 0x0D, CHR 0x20, CHR 0xA0])"
  then have "parseInt rest = NaN" by (rule parseInt_no_digit)
  then show "minusOne (parseInt rest) = NaN" by (simp add: minusOne_def)
qed

theorem edit_replaces_only_text_witness:
  "splitCommand (trim ''e 1.9'') = (''e'', ''1.9'') \<and>
   ''1.9'' = decimal 1 @ ''.9'' \<and>
   minusOne (parseInt ''1.9'') = Num 0 \<and>
   snd (reviewLoop [\<lparr>kind = ''typo'', location = ''A'', suggestion = ''one''\<rparr>,
                    \<lparr>kind = ''tone'', location = ''B'', suggestion = ''two''\<rparr>]
          (''e 1.9'' # '' better '' # [''c''])) =
     Returned [\<lparr>kind = ''typo'', location = ''A'', suggestion = ''better''\<rparr>,
               \<lparr>kind = ''tone'', location = ''B'', suggestion = ''two''\<rparr>] \<and>
   splitCommand (trim ''e 7x'') = (''e'', ''7x'') \<and>
   minusOne (parseInt ''7x'') = Num 6 \<and>
   reviewCommand [\<lparr>kind = ''typo'', location = ''A'', suggestion = ''one''\<rparr>,
                  \<lparr>kind = ''tone'', location = ''B'', suggestion = ''two''\<rparr>] ''e 7x'' =
     ([Log ''Out of range.''],
      Continue [\<lparr>kind = ''typo'', location = ''A'', suggestion = ''one''\<rparr>,
                \<lparr>kind = ''tone'', location = ''B'', suggestion = ''two''\<rparr>]) \<and>
   splitCommand (trim ''e x1'') = (''e'', ''x1'') \<and>
   minusOne (parseInt ''x1'') = NaN"
proof -
  let ?list = "[\<lparr>kind = ''typo'', location = ''A'', suggestion = ''one''\<rparr>,
                \<lparr>kind = ''tone'', location = ''B'', suggestion = ''two''\<rparr>]"
  have a: "splitCommand (trim ''e 1.9'') = (''e'', ''1.9'')"
    by code_simp
  have dec: "''1.9'' = decimal 1 @ ''.9''"
    by code_simp
  have reads: "''1.9'' = decimal 1 @ ''.9'' \<and> (1::nat) < 2 ^ 53 \<and>
               (''.9'' = [] \<or> hd ''.9'' \<notin> set ''0123456789'')"
    using dec by simp
  have "minusOne (parseInt ''1.9'') = Num (int 1 - 1)"
    using edit_replaces_only_text [OF a, of ?list "'' better ''" "[''c'']"] reads by blast
  then have b: "minusOne (parseInt ''1.9'') = Num 0"
    by simp
  have c: "snd (reviewLoop (reviewEdit ?list (nat 0) '' better '') [''c'']) =
     Returned [\<lparr>kind = ''typo'', location = ''A'', suggestion = ''better''\<rparr>,
               \<lparr>kind = ''tone'', location = ''B'', suggestion = ''two''\<rparr>]"
    by code_simp
  have in_range: "minusOne (parseInt ''1.9'') = Num 0 \<and> (0::int) \<le> 0 \<and> 0 < int (length ?list)"
    using b by simp
  have "snd (reviewLoop ?list (''e 1.9'' # '' better '' # [''c''])) =
        snd (reviewLoop (reviewEdit ?list (nat 0) '' better '') [''c''])"
    using edit_replaces_only_text [OF a, of ?list "'' better ''" "[''c'']"] in_range
    unfolding Let_def by blast
  from this c have 1: "snd (reviewLoop ?list (''e 1.9'' # '' better '' # [''c''])) =
     Returned [\<lparr>kind = ''typo'', location = ''A'', suggestion = ''better''\<rparr>,
               \<lparr>kind = ''tone'', location = ''B'', suggestion = ''two''\<rparr>]"
    by (rule trans)
  have a': "splitCommand (trim ''e 7x'') = (''e'', ''7x'')"
    by code_simp
  have b': "minusOne (parseInt ''7x'') = Num 6"
    by code_simp
  have out_of_range: "\<not> (\<exists>idx. minusOne (parseInt ''7x'') = Num idx \<and> 0 \<le> idx \<and> idx < int (length ?list))"
    using b' by simp
  have 2: "reviewCommand ?list ''e 7x'' = ([Log ''Out of range.''], Continue ?list)"
    using edit_replaces_only_text [OF a', of ?list "[]" "[]"] out_of_range by blast
  have a'': "splitCommand (trim ''e x1'') = (''e'', ''x1'')"
    by code_simp
  have no_digit: "''x1'' = [] \<or>
          hd ''x1'' \<notin> set (''0123456789+-'' @
                             [CHR 0x09, CHR 0x0A, CHR 0x0B, CHR 0x0C, CHR 0x0D, CHR 0x20, CHR 0xA0])"
    by simp
  have 3: "minusOne (parseInt ''x1'') = NaN"
    using edit_replaces_only_text [OF a'', of ?list "[]" "[]"] no_digit by blast
  from a dec b 1 a' b' 2 a'' 3 show ?thesis by (intro conjI)
qed

subsection \<open>polishCV\<close>

text \<open>
  Claim C7. When the suggestion engine returns the empty list, polishCV returns the
  Markdown it was given: nothing of the review loop is written or read (the console
  holds the preview only, whatever lines the operator would give), and the only call in
  the history is the one for suggestions, so the edit applier is not called.
\<close>

theorem empty_suggestions_short_circuit:
  assumes "suggestCVImprovements m h cvMarkdown = Inr (Some [])"
  shows "polishCV m cvMarkdown h ins =
           ([Preview cvMarkdown], h @ [SuggestCVImprovements cvMarkdown], Returned cvMarkdown)"
  using assms by (simp add: polishCV_def)

theorem empty_suggestions_short_circuit_witness:
  "suggestCVImprovements
     \<lparr>assessSkillRelevanceToNewJob = (\<lambda>h s j. Inl SyntaxError),
      assessRoleRelevanceToNewJob = (\<lambda>h r j. Inl SyntaxError),
      composeCVMarkdown = (\<lambda>h c. Inl SyntaxError),
      suggestCVImprovements = (\<lambda>h md. Inr (Some [])),
      applyCVEdits = (\<lambda>h md l. Inr ''# edited'')\<rparr> [] ''# CV'' = Inr (Some []) \<and>
   polishCV
     \<lparr>assessSkillRelevanceToNewJob = (\<lambda>h s j. Inl SyntaxError),
      assessRoleRelevanceToNewJob = (\<lambda>h r j. Inl SyntaxError),
      composeCVMarkdown = (\<lambda>h c. Inl SyntaxError),
      suggestCVImprovements = (\<lambda>h md. Inr (Some [])),
      applyCVEdits = (\<lambda>h md l. Inr ''# edited'')\<rparr> ''# CV'' [] [''c''] =
     ([Preview ''# CV''], [SuggestCVImprovements ''# CV''], Returned ''# CV'')"
proof -
  let ?m = "\<lparr>assessSkillRelevanceToNewJob = (\<lambda>h s j. Inl SyntaxError),
      assessRoleRelevanceToNewJob = (\<lambda>h r j. Inl SyntaxError),
      composeCVMarkdown = (\<lambda>h c. Inl SyntaxError),
      suggestCVImprovements = (\<lambda>h md. Inr (Some [])),
      applyCVEdits = (\<lambda>h md l. Inr ''# edited'')\<rparr>"
  have a: "suggestCVImprovements ?m [] ''# CV'' = Inr (Some [])"
    by simp
  from empty_suggestions_short_circuit [OF a, of "[''c'']"] a show ?thesis
    by simp
qed

lemma reviewCommand_delete_all:
  assumes "splitCommand (trim dl) = (''d'', rest)"
      and "rest = ''a'' \<or>
           (\<exists>idxs. parseIndexList rest (length list) = Some idxs \<and> set idxs = {0..<length list})"
  shows "\<exists>out. reviewCommand list dl = (out, Continue [])"
proof (cases "rest = ''a''")
  case True
  with assms(1) command_not_blank [of dl] show ?thesis
    by (simp add: reviewCommand_def Let_def)
next
  case False
  with assms(2) obtain idxs where p: "parseIndexList rest (length list) = Some idxs"
    and all: "set idxs = {0..<length list}" by blast
  have rc: "reviewCommand list dl =
           (if idxs = [] then ([Log ''No valid indices.''], Continue list)
            else ([], Continue (removeIndices idxs list)))"
    by (rule reviewCommand_d [OF assms(1) False p])
  show ?thesis
  proof (cases "idxs = []")
    case True
    with all have "list = []" by simp
    with rc True show ?thesis by simp
  next
    case False
    have "filter (\<lambda>i. i \<notin> set idxs) [0..<length list] = []"
      unfolding all by (simp add: filter_empty_conv)
    then have "removeIndices idxs list = []"
      by (simp add: removeIndices_eq)
    with rc False show ?thesis by simp
  qed
qed

lemma polishCV_nothing_approved:
  assumes "suggestCVImprovements m h cvMarkdown = Inr (Some suggestions)"
      and "snd (reviewSuggestionsInteractively suggestions ins) = Returned []"
  shows "snd (polishCV m cvMarkdown h ins) =
           (h @ [SuggestCVImprovements cvMarkdown], Returned cvMarkdown)"
proof -
  obtain out where "reviewSuggestionsInteractively suggestions ins = (out, Returned [])"
    using assms(2) by (cases "reviewSuggestionsInteractively suggestions ins") simp
  with assms(1) show ?thesis by (simp add: polishCV_def Let_def)
qed

text \<open>
  Claim C5. With the loop at its prompt, a \<open>d\<close> command that removes everything (\<open>d a\<close>,
  or an index list that covers every position) followed by \<open>c\<close> ends as \<open>q\<close> does:
  the review returns the empty list, and polishCV returns the Markdown it was given with
  the call for suggestions as its only call, so applyCVEdits is not called.
\<close>

theorem delete_all_then_continue_same_as_quit:
  assumes "suggestCVImprovements m h cvMarkdown = Inr (Some suggestions)"
      and "snd (reviewSuggestionsInteractively suggestions pre) = AwaitCommand list"
      and "splitCommand (trim dl) = (''d'', rest)"
      and "rest = ''a'' \<or>
           (\<exists>idxs. parseIndexList rest (length list) = Some idxs \<and> set idxs = {0..<length list})"
      and "fst (splitCommand (trim cl)) = ''c''"
      and "fst (splitCommand (trim ql)) = ''q''"
  shows "snd (reviewSuggestionsInteractively suggestions (pre @ dl # cl # post)) = Returned [] \<and>
         snd (reviewSuggestionsInteractively suggestions (pre @ ql # post')) = Returned [] \<and>
         snd (polishCV m cvMarkdown h (pre @ dl # cl # post)) =
           (h @ [SuggestCVImprovements cvMarkdown], Returned cvMarkdown) \<and>
         snd (polishCV m cvMarkdown h (pre @ ql # post')) =
           (h @ [SuggestCVImprovements cvMarkdown], Returned cvMarkdown)"
proof -
  have at_prompt: "snd (reviewLoop suggestions pre) = AwaitCommand list"
    using assms(2) by (simp add: reviewSuggestionsInteractively_def)
  obtain out where d: "reviewCommand list dl = (out, Continue [])"
    using reviewCommand_delete_all [OF assms(3,4)] by blast
  have "snd (reviewLoop list (dl # cl # post)) = Returned []"
    by (simp add: d snd_emit reviewCommand_c [OF assms(5)])
  then have dc: "snd (reviewSuggestionsInteractively suggestions (pre @ dl # cl # post)) = Returned []"
    using reviewLoop_append [OF at_prompt, of "dl # cl # post"]
    by (simp add: reviewSuggestionsInteractively_def)
  have "snd (reviewLoop list (ql # post')) = Returned []"
    by (simp add: snd_emit reviewCommand_q [OF assms(6)])
  then have q: "snd (reviewSuggestionsInteractively suggestions (pre @ ql # post')) = Returned []"
    using reviewLoop_append [OF at_prompt, of "ql # post'"]
    by (simp add: reviewSuggestionsInteractively_def)
  from dc q polishCV_nothing_approved [OF assms(1) dc] polishCV_nothing_approved [OF assms(1) q]
  show ?thesis by (intro conjI)
qed

theorem delete_all_then_continue_same_as_quit_witness:
  "snd (reviewSuggestionsInteractively
          [\<lparr>kind = ''typo'', location = ''A'', suggestion = ''one''\<rparr>,
           \<lparr>kind = ''tone'', location = ''B'', suggestion = ''two''\<rparr>] [''e 1'', ''uno'']) =
     AwaitCommand [\<lparr>kind = ''typo'', location = ''A'', suggestion = ''uno''\<rparr>,
                   \<lparr>kind = ''tone'', location = ''B'', suggestion = ''two''\<rparr>] \<and>
   splitCommand (trim ''d 1-2'') = (''d'', ''1-2'') \<and>
   parseIndexList ''1-2'' 2 = Some [0, 1] \<and>
   fst (splitCommand (trim ''c'')) = ''c'' \<and> fst (splitCommand (trim ''q'')) = ''q'' \<and>
   snd (polishCV
     \<lparr>assessSkillRelevanceToNewJob = (\<lambda>h s j. Inl SyntaxError),
      assessRoleRelevanceToNewJob = (\<lambda>h r j. Inl SyntaxError),
      composeCVMarkdown = (\<lambda>h c. Inl SyntaxError),
      suggestCVImprovements = (\<lambda>h md. Inr (Some
          [\<lparr>kind = ''typo'', location = ''A'', suggestion = ''one''\<rparr>,
           \<lparr>kind = ''tone'', location = ''B'', suggestion = ''two''\<rparr>])),
      applyCVEdits = (\<lambda>h md l. Inr ''# edited'')\<rparr> ''# CV'' []
      ([''e 1'', ''uno''] @ ''d 1-2'' # ''c'' # [])) =
     ([SuggestCVImprovements ''# CV''], Returned ''# CV'') \<and>
   snd (polishCV
     \<lparr>assessSkillRelevanceToNewJob = (\<lambda>h s j. Inl SyntaxError),
      assessRoleRelevanceToNewJob = (\<lambda>h r j. Inl SyntaxError),
      composeCVMarkdown = (\<lambda>h c. Inl SyntaxError),
      suggestCVImprovements = (\<lambda>h md. Inr (Some
          [\<lparr>kind = ''typo'', location = ''A'', suggestion = ''one''\<rparr>,
           \<lparr>kind = ''tone'', location = ''B'', suggestion = ''two''\<rparr>])),
      applyCVEdits = (\<lambda>h md l. Inr ''# edited'')\<rparr> ''# CV'' []
      ([''e 1'', ''uno''] @ ''q'' # [])) =
     ([SuggestCVImprovements ''# CV''], Returned ''# CV'')"
proof -
  let ?sugg = "[\<lparr>kind = ''typo'', location = ''A'', suggestion = ''one''\<rparr>,
           \<lparr>kind = ''tone'', location = ''B'', suggestion = ''two''\<rparr>]"
  let ?list = "[\<lparr>kind = ''typo'', location = ''A'', suggestion = ''uno''\<rparr>,
                   \<lparr>kind = ''tone'', location = ''B'', suggestion = ''two''\<rparr>]"
  let ?m = "\<lparr>assessSkillRelevanceToNewJob = (\<lambda>h s j. Inl SyntaxError),
      assessRoleRelevanceToNewJob = (\<lambda>h r j. Inl SyntaxError),
      composeCVMarkdown = (\<lambda>h c. Inl SyntaxError),
      suggestCVImprovements = (\<lambda>h md. Inr (Some ?sugg)),
      applyCVEdits = (\<lambda>h md l. Inr ''# edited'')\<rparr>"
  have s: "suggestCVImprovements ?m [] ''# CV'' = Inr (Some ?sugg)"
    by simp
  have a: "snd (reviewSuggestionsInteractively ?sugg [''e 1'', ''uno'']) = AwaitCommand ?list"
    by code_simp
  have b: "splitCommand (trim ''d 1-2'') = (''d'', ''1-2'')"
    by code_simp
  have p: "parseIndexList ''1-2'' 2 = Some [0, 1]"
    by code_simp
  have p': "parseIndexList ''1-2'' (length ?list) = Some [0, 1]"
    by code_simp
  have all: "set [0, 1::nat] = {0..<length ?list}"
    by auto
  have c: "''1-2'' = ''a'' \<or>
      (\<exists>idxs. parseIndexList ''1-2'' (length ?list) = Some idxs \<and> set idxs = {0..<length ?list})"
    using p' all by blast
  have d: "fst (splitCommand (trim ''c'')) = ''c''"
    by code_simp
  have e: "fst (splitCommand (trim ''q'')) = ''q''"
    by code_simp
  note t = delete_all_then_continue_same_as_quit [OF s a b c d e, of "[]" "[]"]
  have 1: "snd (polishCV ?m ''# CV'' [] ([''e 1'', ''uno''] @ ''d 1-2'' # ''c'' # [])) =
     ([SuggestCVImprovements ''# CV''], Returned ''# CV'')"
    using t by simp
  have 2: "snd (polishCV ?m ''# CV'' [] ([''e 1'', ''uno''] @ ''q'' # [])) =
     ([SuggestCVImprovements ''# CV''], Returned ''# CV'')"
    using t by simp
  from a b p d e 1 2 show ?thesis by (intro conjI)
qed

subsection \<open>draftCV\<close>

lemma mset_insertBy: "mset (insertBy cmp x xs) = add_mset x (mset xs)"
  by (induction xs) simp_all

lemma mset_sortJS: "mset (sortJS cmp xs) = mset xs"
  by (induction xs) (simp_all add: sortJS_def mset_insertBy)







text \<open>
  The loops of draftCV ask about each item once, in order, each time under the history
  of the calls made before; what is pushed for an item is made from the reply to that
  call.
\<close>

lemma assessEach_run:
  "assessEach m jd xs h acc = (h', Inr res) \<Longrightarrow>
   h' = h @ skillCalls jd xs \<and>
   (\<exists>new. res = acc @ new \<and> length new = length xs \<and>
      (\<forall>k<length xs.
         item (new ! k) = xs ! k \<and>
         assessSkillRelevanceToNewJob m (h @ skillCalls jd (take k xs)) (xs ! k) jd =
           Inr \<lparr>score = score (new ! k), rationale = rationale (new ! k)\<rparr>))"
proof (induction xs arbitrary: h acc)
  case Nil
  then show ?case by (simp add: skillCalls_def)
next
  case (Cons x xs)
  show ?case
  proof (cases "assessSkillRelevanceToNewJob m h x jd")
    case (Inl e)
    with Cons.prems show ?thesis by simp
  next
    case (Inr r)
    define entry where "entry = \<lparr>score = score r, rationale = rationale r, item = x\<rparr>"
    from Cons.prems Inr
    have rest: "assessEach m jd xs (h @ [AssessSkillRelevance x jd]) (acc @ [entry]) = (h', Inr res)"
      by (simp add: entry_def)
    from Cons.IH [OF rest] obtain new where
      hist: "h' = (h @ [AssessSkillRelevance x jd]) @ skillCalls jd xs" and
      new: "res = (acc @ [entry]) @ new" and
      len: "length new = length xs" and
      each: "\<forall>k<length xs.
         item (new ! k) = xs ! k \<and>
         assessSkillRelevanceToNewJob m ((h @ [AssessSkillRelevance x jd]) @ skillCalls jd (take k xs))
             (xs ! k) jd =
           Inr \<lparr>score = score (new ! k), rationale = rationale (new ! k)\<rparr>"
      by (elim conjE exE)
    have r: "r = \<lparr>score = score r, rationale = rationale r\<rparr>" by simp
    have 0: "h' = h @ skillCalls jd (x # xs)"
      using hist by (simp add: skillCalls_def)
    have 1: "res = acc @ (entry # new)" using new by simp
    have 2: "length (entry # new) = length (x # xs)" using len by simp
    have 3: "item ((entry # new) ! k) = (x # xs) ! k \<and>
         assessSkillRelevanceToNewJob m (h @ skillCalls jd (take k (x # xs))) ((x # xs) ! k) jd =
           Inr \<lparr>score = score ((entry # new) ! k), rationale = rationale ((entry # new) ! k)\<rparr>"
      if k: "k < length (x # xs)" for k
    proof (cases k)
      case 0
      have "assessSkillRelevanceToNewJob m h x jd = Inr \<lparr>score = score r, rationale = rationale r\<rparr>"
        using Inr r by simp
      then show ?thesis by (simp add: 0 entry_def skillCalls_def)
    next
      case (Suc k')
      with k have kk: "k' < length xs" by simp
      from each [rule_format, OF kk] show ?thesis by (simp add: Suc skillCalls_def)
    qed
    have 4: "\<exists>new'. res = acc @ new' \<and> length new' = length (x # xs) \<and>
      (\<forall>k<length (x # xs).
         item (new' ! k) = (x # xs) ! k \<and>
         assessSkillRelevanceToNewJob m (h @ skillCalls jd (take k (x # xs))) ((x # xs) ! k) jd =
           Inr \<lparr>score = score (new' ! k), rationale = rationale (new' ! k)\<rparr>)"
      by (rule exI [of _ "entry # new"]) (intro conjI 1 2 allI impI 3)
    from 0 4 show ?thesis by (rule conjI)
  qed
qed

lemma assessRoles_run:
  "assessRoles m jd roles h acc = (h', Inr res) \<Longrightarrow>
   h' = h @ roleCalls jd roles \<and>
   (\<exists>new. res = acc @ new \<and> length new = length roles \<and>
      (\<forall>k<length roles. \<exists>r.
         assessRoleRelevanceToNewJob m (h @ roleCalls jd (take k roles)) (roles ! k) jd = Inr r \<and>
         new ! k = (if score r < 80 then deleteKey ''description'' (roles ! k) else roles ! k)))"
proof (induction roles arbitrary: h acc)
  case Nil
  then show ?case by (simp add: roleCalls_def)
next
  case (Cons role roles)
  show ?case
  proof (cases "assessRoleRelevanceToNewJob m h role jd")
    case (Inl e)
    with Cons.prems show ?thesis by simp
  next
    case (Inr r)
    define includeRole where
      "includeRole = (if score r < 80 then deleteKey ''description'' role else role)"
    from Cons.prems Inr
    have rest: "assessRoles m jd roles (h @ [AssessRoleRelevance role jd]) (acc @ [includeRole]) =
                (h', Inr res)"
      by (simp add: includeRole_def Let_def)
    from Cons.IH [OF rest] obtain new where
      hist: "h' = (h @ [AssessRoleRelevance role jd]) @ roleCalls jd roles" and
      new: "res = (acc @ [includeRole]) @ new" and
      len: "length new = length roles" and
      each: "\<forall>k<length roles. \<exists>r.
         assessRoleRelevanceToNewJob m ((h @ [AssessRoleRelevance role jd]) @ roleCalls jd (take k roles))
             (roles ! k) jd = Inr r \<and>
         new ! k = (if score r < 80 then deleteKey ''description'' (roles ! k) else roles ! k)"
      by (elim conjE exE)
    have 0: "h' = h @ roleCalls jd (role # roles)"
      using hist by (simp add: roleCalls_def)
    have 1: "res = acc @ (includeRole # new)" using new by simp
    have 2: "length (includeRole # new) = length (role # roles)" using len by simp
    have 3: "\<exists>r. assessRoleRelevanceToNewJob m (h @ roleCalls jd (take k (role # roles)))
                   ((role # roles) ! k) jd = Inr r \<and>
         (includeRole # new) ! k =
           (if score r < 80 then deleteKey ''description'' ((role # roles) ! k) else (role # roles) ! k)"
      if k: "k < length (role # roles)" for k
    proof (cases k)
      case 0
      have a: "assessRoleRelevanceToNewJob m (h @ roleCalls jd (take k (role # roles)))
                   ((role # roles) ! k) jd = Inr r"
        using Inr by (simp add: 0 roleCalls_def)
      have b: "(includeRole # new) ! k =
           (if score r < 80 then deleteKey ''description'' ((role # roles) ! k) else (role # roles) ! k)"
        by (simp add: 0 includeRole_def)
      show ?thesis by (rule exI [of _ r]) (intro conjI a b)
    next
      case (Suc k')
      with k have kk: "k' < length roles" by simp
      from each [rule_format, OF kk] obtain r' where
        a': "assessRoleRelevanceToNewJob m ((h @ [AssessRoleRelevance role jd]) @ roleCalls jd (take k' roles))
             (roles ! k') jd = Inr r'" and
        b': "new ! k' = (if score r' < 80 then deleteKey ''description'' (roles ! k') else roles ! k')"
        by (elim exE conjE)
      have a: "assessRoleRelevanceToNewJob m (h @ roleCalls jd (take k (role # roles)))
                   ((role # roles) ! k) jd = Inr r'"
        using a' by (simp add: Suc roleCalls_def)
      have b: "(includeRole # new) ! k =
           (if score r' < 80 then deleteKey ''description'' ((role # roles) ! k) else (role # roles) ! k)"
        using b' by (simp add: Suc)
      show ?thesis by (rule exI [of _ r']) (intro conjI a b)
    qed
    have 4: "\<exists>new'. res = acc @ new' \<and> length new' = length (role # roles) \<and>
      (\<forall>k<length (role # roles). \<exists>r.
         assessRoleRelevanceToNewJob m (h @ roleCalls jd (take k (role # roles))) ((role # roles) ! k) jd = Inr r \<and>
         new' ! k = (if score r < 80 then deleteKey ''description'' ((role # roles) ! k) else (role # roles) ! k))"
      by (rule exI [of _ "includeRole # new"]) (intro conjI 1 2 allI impI 3)
    from 0 4 show ?thesis by (rule conjI)
  qed
qed

lemma draftCV_cv_parts:
  assumes "draftCV_cv m lc base jd h = (h', Inr c)"
  shows "\<exists>sk ac rs h1 h2.
      assessEach m jd (orEmpty (cvBaseData.skills base)) h [] = (h1, Inr sk) \<and>
      assessEach m jd (orEmpty (cvBaseData.achievements base)) h1 [] = (h2, Inr ac) \<and>
      assessRoles m jd (orEmpty (cvBaseData.pastJobRoles base)) h2 [] = (h', Inr rs) \<and>
      cv.skills c = map item (take 10 (sortJS byScoreDesc sk)) \<and>
      cv.achievements c = map item (take 10 (sortJS byScoreDesc ac)) \<and>
      cv.pastJobRoles c = sortJS (byStartDateDesc lc) rs"
proof -
  obtain h1 r1 where e1: "assessEach m jd (orEmpty (cvBaseData.skills base)) h [] = (h1, r1)"
    by (cases "assessEach m jd (orEmpty (cvBaseData.skills base)) h []")
  obtain sk where r1: "r1 = Inr sk"
    using assms e1 by (cases r1) (simp_all add: draftCV_cv_def)
  obtain h2 r2 where e2: "assessEach m jd (orEmpty (cvBaseData.achievements base)) h1 [] = (h2, r2)"
    by (cases "assessEach m jd (orEmpty (cvBaseData.achievements base)) h1 []")
  obtain ac where r2: "r2 = Inr ac"
    using assms e1 r1 e2 by (cases r2) (simp_all add: draftCV_cv_def)
  obtain h3 r3 where e3: "assessRoles m jd (orEmpty (cvBaseData.pastJobRoles base)) h2 [] = (h3, r3)"
    by (cases "assessRoles m jd (orEmpty (cvBaseData.pastJobRoles base)) h2 []")
  obtain rs where r3: "r3 = Inr rs"
    using assms e1 r1 e2 r2 e3 by (cases r3) (simp_all add: draftCV_cv_def)
  from assms e1 r1 e2 r2 e3 r3 have h3: "h3 = h'"
    and c: "c = \<lparr>cv.personalDetails = cvBaseData.personalDetails base,
                    cv.qualifications = cvBaseData.qualifications base,
                    cv.skills = map item (take 10 (sortJS byScoreDesc sk)),
                    cv.achievements = map item (take 10 (sortJS byScoreDesc ac)),
                    cv.pastJobRoles = sortJS (byStartDateDesc lc) rs\<rparr>"
    by (simp_all add: draftCV_cv_def)
  have c1: "cv.skills c = map item (take 10 (sortJS byScoreDesc sk))"
    and c2: "cv.achievements c = map item (take 10 (sortJS byScoreDesc ac))"
    and c3: "cv.pastJobRoles c = sortJS (byStartDateDesc lc) rs"
    by (simp_all add: c)
  from e1 r1 have a1: "assessEach m jd (orEmpty (cvBaseData.skills base)) h [] = (h1, Inr sk)"
    by simp
  from e2 r2 have a2: "assessEach m jd (orEmpty (cvBaseData.achievements base)) h1 [] = (h2, Inr ac)"
    by simp
  from e3 r3 h3 have a3: "assessRoles m jd (orEmpty (cvBaseData.pastJobRoles base)) h2 [] = (h', Inr rs)"
    by simp
  show ?thesis
    by (intro exI [of _ sk] exI [of _ ac] exI [of _ rs] exI [of _ h1] exI [of _ h2] conjI)
       (rule a1 a2 a3 c1 c2 c3)+
qed

text \<open>
  A run of draftCV that reaches composeCVMarkdown, with the histories of its calls: the
  skills are scored first, then the achievements, then the roles.
\<close>

lemma draftCV_cv_run:
  assumes "draftCV_cv m localeCompare base jobDescription h = (h', Inr c)"
      and "theSkills = (case cvBaseData.skills base of None \<Rightarrow> [] | Some l \<Rightarrow> l)"
      and "theAchievements = (case cvBaseData.achievements base of None \<Rightarrow> [] | Some l \<Rightarrow> l)"
      and "theRoles = (case cvBaseData.pastJobRoles base of None \<Rightarrow> [] | Some l \<Rightarrow> l)"
  shows "\<exists>(skillsWithRelevance :: scored list) (achievementsWithRelevance :: scored list)
            rolesToInclude.
           length skillsWithRelevance = length theSkills \<and>
           (\<forall>k<length theSkills.
              item (skillsWithRelevance ! k) = theSkills ! k \<and>
              assessSkillRelevanceToNewJob m (h @ skillCalls jobDescription (take k theSkills))
                  (theSkills ! k) jobDescription =
                Inr \<lparr>score = score (skillsWithRelevance ! k),
                     rationale = rationale (skillsWithRelevance ! k)\<rparr>) \<and>
           length achievementsWithRelevance = length theAchievements \<and>
           (\<forall>k<length theAchievements.
              item (achievementsWithRelevance ! k) = theAchievements ! k \<and>
              assessSkillRelevanceToNewJob m
                  (h @ skillCalls jobDescription theSkills @
                   skillCalls jobDescription (take k theAchievements))
                  (theAchievements ! k) jobDescription =
                Inr \<lparr>score = score (achievementsWithRelevance ! k),
                     rationale = rationale (achievementsWithRelevance ! k)\<rparr>) \<and>
           length rolesToInclude = length theRoles \<and>
           (\<forall>k<length theRoles. \<exists>r.
              assessRoleRelevanceToNewJob m
                  (h @ skillCalls jobDescription theSkills @ skillCalls jobDescription theAchievements @
                   roleCalls jobDescription (take k theRoles))
                  (theRoles ! k) jobDescription = Inr r \<and>
              rolesToInclude ! k =
                (if score r < 80 then deleteKey ''description'' (theRoles ! k) else theRoles ! k)) \<and>
           cv.skills c = map item (take 10 (sortJS byScoreDesc skillsWithRelevance)) \<and>
           cv.achievements c = map item (take 10 (sortJS byScoreDesc achievementsWithRelevance)) \<and>
           cv.pastJobRoles c = sortJS (byStartDateDesc localeCompare) rolesToInclude \<and>
           h' = h @ skillCalls jobDescription theSkills @ skillCalls jobDescription theAchievements @
                roleCalls jobDescription theRoles"
proof -
  have sk_eq: "orEmpty (cvBaseData.skills base) = theSkills"
    and ac_eq: "orEmpty (cvBaseData.achievements base) = theAchievements"
    and ro_eq: "orEmpty (cvBaseData.pastJobRoles base) = theRoles"
    using assms(2-4) by (simp_all add: orEmpty_def)
  from draftCV_cv_parts [OF assms(1)] obtain sk ac rs h1 h2 where
    s: "assessEach m jobDescription theSkills h [] = (h1, Inr sk)" and
    a: "assessEach m jobDescription theAchievements h1 [] = (h2, Inr ac)" and
    r: "assessRoles m jobDescription theRoles h2 [] = (h', Inr rs)" and
    cs: "cv.skills c = map item (take 10 (sortJS byScoreDesc sk))" and
    ca: "cv.achievements c = map item (take 10 (sortJS byScoreDesc ac))" and
    cr: "cv.pastJobRoles c = sortJS (byStartDateDesc localeCompare) rs"
    unfolding sk_eq ac_eq ro_eq by (elim exE conjE)
  from assessEach_run [OF s] obtain new1 where
    h1: "h1 = h @ skillCalls jobDescription theSkills" and n1: "sk = [] @ new1" and
    l1: "length new1 = length theSkills" and
    e1: "\<forall>k<length theSkills.
              item (new1 ! k) = theSkills ! k \<and>
              assessSkillRelevanceToNewJob m (h @ skillCalls jobDescription (take k theSkills))
                  (theSkills ! k) jobDescription =
                Inr \<lparr>score = score (new1 ! k), rationale = rationale (new1 ! k)\<rparr>"
    by (elim exE conjE)
  from assessEach_run [OF a] obtain new2 where
    h2: "h2 = h1 @ skillCalls jobDescription theAchievements" and n2: "ac = [] @ new2" and
    l2: "length new2 = length theAchievements" and
    e2: "\<forall>k<length theAchievements.
              item (new2 ! k) = theAchievements ! k \<and>
              assessSkillRelevanceToNewJob m (h1 @ skillCalls jobDescription (take k theAchievements))
                  (theAchievements ! k) jobDescription =
                Inr \<lparr>score = score (new2 ! k), rationale = rationale (new2 ! k)\<rparr>"
    by (elim exE conjE)
  from assessRoles_run [OF r] obtain new3 where
    h3: "h' = h2 @ roleCalls jobDescription theRoles" and n3: "rs = [] @ new3" and
    l3: "length new3 = length theRoles" and
    e3: "\<forall>k<length theRoles. \<exists>r.
              assessRoleRelevanceToNewJob m (h2 @ roleCalls jobDescription (take k theRoles))
                  (theRoles ! k) jobDescription = Inr r \<and>
              new3 ! k =
                (if score r < 80 then deleteKey ''description'' (theRoles ! k) else theRoles ! k)"
    by (elim exE conjE)
  have sk: "sk = new1" and ac: "ac = new2" and rs: "rs = new3"
    using n1 n2 n3 by simp_all
  have hist2: "h1 @ skillCalls jobDescription xs =
               h @ skillCalls jobDescription theSkills @ skillCalls jobDescription xs" for xs
    by (simp add: h1)
  have hist3: "h2 @ roleCalls jobDescription xs =
               h @ skillCalls jobDescription theSkills @ skillCalls jobDescription theAchievements @
               roleCalls jobDescription xs" for xs
    by (simp add: h1 h2)
  note f1 = l1 [folded sk] and g1 = e1 [folded sk]
  note f2 = l2 [folded ac] and g2 = e2 [folded ac, unfolded hist2]
  note f3 = l3 [folded rs] and g3 = e3 [folded rs, unfolded hist3]
  note f4 = h3 [unfolded hist3]
  show ?thesis
    by (rule exI [of _ sk], rule exI [of _ ac], rule exI [of _ rs])
       (intro conjI f1 g1 f2 g2 f3 g3 cs ca cr f4)
qed

lemma deleteKey_absent: "k \<notin> fst ` set (deleteKey k obj)"
  by (auto simp: deleteKey_def)

lemma deleteKey_others:
  "filter (\<lambda>kv. fst kv \<noteq> k) (deleteKey k obj) = filter (\<lambda>kv. fst kv \<noteq> k) obj"
  by (simp add: deleteKey_def case_prod_beta)


lemma example_run_moody:
  "draftCV_cv moodyLLM (\<lambda>a b. 0) exampleBase ''jd'' [] =
     ([AssessSkillRelevance ''aaaaaaa'' ''jd'', AssessSkillRelevance ''bbb'' ''jd'',
       AssessSkillRelevance ''ccccccccc'' ''jd'', AssessSkillRelevance ''ddd'' ''jd'',
       AssessRoleRelevance [(''jobTitle'', ''X''), (''from'', ''2018''), (''description'', ''dx'')] ''jd'',
       AssessRoleRelevance [(''jobTitle'', ''Y''), (''from'', ''2021''), (''description'', ''dy'')] ''jd''],
      Inr \<lparr>cv.personalDetails = None, qualifications = None,
           skills = [''ccccccccc'', ''aaaaaaa'', ''bbb'', ''ddd''], achievements = [],
           pastJobRoles = [[(''jobTitle'', ''X''), (''from'', ''2018''), (''description'', ''dx'')],
                           [(''jobTitle'', ''Y''), (''from'', ''2021'')]]\<rparr>)"
  by code_simp

lemma example_lists:
  "[''aaaaaaa'', ''bbb'', ''ccccccccc'', ''ddd''] =
     (case cvBaseData.skills exampleBase of None \<Rightarrow> [] | Some l \<Rightarrow> l)"
  "[] = (case cvBaseData.achievements exampleBase of None \<Rightarrow> [] | Some l \<Rightarrow> l)"
  "[[(''jobTitle'', ''X''), (''from'', ''2018''), (''description'', ''dx'')],
            [(''jobTitle'', ''Y''), (''from'', ''2021''), (''description'', ''dy'')]] =
     (case cvBaseData.pastJobRoles exampleBase of None \<Rightarrow> [] | Some l \<Rightarrow> l)"
  by (simp_all add: exampleBase_def)




text \<open>
  Claim C2. In a run of draftCV that reaches composeCVMarkdown, the roles of the CV
  passed to it are the roles pushed by the loop, sorted by start date. The loop pushes
  one for each past role, in order, by the score that the scorer returns for that role
  in this run, to the call made after the calls for the skills, the achievements and
  the roles before it: below 80 the pushed role has no description member, otherwise it
  is the role itself, and in either case every member other than the description is
  kept, in order.
\<close>

theorem past_role_redaction:
  assumes "draftCV_cv m localeCompare base jobDescription h = (h', Inr c)"
      and "theSkills = (case cvBaseData.skills base of None \<Rightarrow> [] | Some l \<Rightarrow> l)"
      and "theAchievements = (case cvBaseData.achievements base of None \<Rightarrow> [] | Some l \<Rightarrow> l)"
      and "theRoles = (case cvBaseData.pastJobRoles base of None \<Rightarrow> [] | Some l \<Rightarrow> l)"
  shows "\<exists>rolesToInclude.
           cv.pastJobRoles c = sortJS (byStartDateDesc localeCompare) rolesToInclude \<and>
           mset (cv.pastJobRoles c) = mset rolesToInclude \<and>
           length rolesToInclude = length theRoles \<and>
           (\<forall>k<length theRoles. \<exists>r.
              assessRoleRelevanceToNewJob m
                  (h @ skillCalls jobDescription theSkills @ skillCalls jobDescription theAchievements @
                   roleCalls jobDescription (take k theRoles))
                  (theRoles ! k) jobDescription = Inr r \<and>
              (score r < 80 \<longrightarrow> ''description'' \<notin> fst ` set (rolesToInclude ! k)) \<and>
              (\<not> score r < 80 \<longrightarrow> rolesToInclude ! k = theRoles ! k) \<and>
              filter (\<lambda>kv. fst kv \<noteq> ''description'') (rolesToInclude ! k) =
                filter (\<lambda>kv. fst kv \<noteq> ''description'') (theRoles ! k))"
proof -
  from draftCV_cv_run [OF assms] obtain rs where
    len: "length rs = length theRoles" and
    each: "(\<forall>k<length theRoles. \<exists>r.
              assessRoleRelevanceToNewJob m
                  (h @ skillCalls jobDescription theSkills @ skillCalls jobDescription theAchievements @
                   roleCalls jobDescription (take k theRoles))
                  (theRoles ! k) jobDescription = Inr r \<and>
              rs ! k =
                (if score r < 80 then deleteKey ''description'' (theRoles ! k) else theRoles ! k))" and
    c: "cv.pastJobRoles c = sortJS (byStartDateDesc localeCompare) rs"
    by (elim exE conjE)
  have m: "mset (cv.pastJobRoles c) = mset rs"
    unfolding c by (rule mset_sortJS)
  have step: "\<exists>r. assessRoleRelevanceToNewJob m
                  (h @ skillCalls jobDescription theSkills @ skillCalls jobDescription theAchievements @
                   roleCalls jobDescription (take k theRoles))
                  (theRoles ! k) jobDescription = Inr r \<and>
              (score r < 80 \<longrightarrow> ''description'' \<notin> fst ` set (rs ! k)) \<and>
              (\<not> score r < 80 \<longrightarrow> rs ! k = theRoles ! k) \<and>
              filter (\<lambda>kv. fst kv \<noteq> ''description'') (rs ! k) =
                filter (\<lambda>kv. fst kv \<noteq> ''description'') (theRoles ! k)"
    if k: "k < length theRoles" for k
  proof -
    from each [rule_format, OF k] obtain r where
      r: "assessRoleRelevanceToNewJob m
                  (h @ skillCalls jobDescription theSkills @ skillCalls jobDescription theAchievements @
                   roleCalls jobDescription (take k theRoles))
                  (theRoles ! k) jobDescription = Inr r" and
      inc: "rs ! k = (if score r < 80 then deleteKey ''description'' (theRoles ! k) else theRoles ! k)"
      by (elim exE conjE)
    have 1: "score r < 80 \<longrightarrow> ''description'' \<notin> fst ` set (rs ! k)"
      unfolding inc using deleteKey_absent [of "''description''" "theRoles ! k"] by simp
    have 2: "\<not> score r < 80 \<longrightarrow> rs ! k = theRoles ! k"
      unfolding inc by simp
    have 3: "filter (\<lambda>kv. fst kv \<noteq> ''description'') (rs ! k) =
                filter (\<lambda>kv. fst kv \<noteq> ''description'') (theRoles ! k)"
      unfolding inc using deleteKey_others [of "''description''" "theRoles ! k"] by simp
    show ?thesis
      by (rule exI [of _ r]) (intro conjI r 1 2 3)
  qed
  show ?thesis
    by (rule exI [of _ rs]) (intro conjI c m len allI impI step)
qed

theorem past_role_redaction_witness:
  "draftCV_cv moodyLLM (\<lambda>a b. 0) exampleBase ''jd'' [] =
     ([AssessSkillRelevance ''aaaaaaa'' ''jd'', AssessSkillRelevance ''bbb'' ''jd'',
       AssessSkillRelevance ''ccccccccc'' ''jd'', AssessSkillRelevance ''ddd'' ''jd'',
       AssessRoleRelevance [(''jobTitle'', ''X''), (''from'', ''2018''), (''description'', ''dx'')] ''jd'',
       AssessRoleRelevance [(''jobTitle'', ''Y''), (''from'', ''2021''), (''description'', ''dy'')] ''jd''],
      Inr \<lparr>cv.personalDetails = None, qualifications = None,
           skills = [''ccccccccc'', ''aaaaaaa'', ''bbb'', ''ddd''], achievements = [],
           pastJobRoles = [[(''jobTitle'', ''X''), (''from'', ''2018''), (''description'', ''dx'')],
                           [(''jobTitle'', ''Y''), (''from'', ''2021'')]]\<rparr>) \<and>
   (\<exists>rolesToInclude.
      [[(''jobTitle'', ''X''), (''from'', ''2018''), (''description'', ''dx'')],
       [(''jobTitle'', ''Y''), (''from'', ''2021'')]] =
        sortJS (byStartDateDesc (\<lambda>a b. 0)) rolesToInclude \<and>
      length rolesToInclude = 2 \<and>
      rolesToInclude ! 0 = [(''jobTitle'', ''X''), (''from'', ''2018''), (''description'', ''dx'')] \<and>
      ''description'' \<notin> fst ` set (rolesToInclude ! 1) \<and>
      filter (\<lambda>kv. fst kv \<noteq> ''description'') (rolesToInclude ! 1) =
        [(''jobTitle'', ''Y''), (''from'', ''2021'')])"
proof -
  note run = example_run_moody
  from past_role_redaction [OF run example_lists] obtain rs where
    c: "cv.pastJobRoles \<lparr>cv.personalDetails = None, qualifications = None,
           skills = [''ccccccccc'', ''aaaaaaa'', ''bbb'', ''ddd''], achievements = [],
           pastJobRoles = [[(''jobTitle'', ''X''), (''from'', ''2018''), (''description'', ''dx'')],
                           [(''jobTitle'', ''Y''), (''from'', ''2021'')]]\<rparr> = sortJS (byStartDateDesc (\<lambda>a b. 0)) rs" and
    len: "length rs = length [[(''jobTitle'', ''X''), (''from'', ''2018''), (''description'', ''dx'')],
            [(''jobTitle'', ''Y''), (''from'', ''2021''), (''description'', ''dy'')]]" and
    each: "(\<forall>k<length [[(''jobTitle'', ''X''), (''from'', ''2018''), (''description'', ''dx'')],
            [(''jobTitle'', ''Y''), (''from'', ''2021''), (''description'', ''dy'')]]. \<exists>r.
              assessRoleRelevanceToNewJob moodyLLM
                  ([] @ skillCalls ''jd'' [''aaaaaaa'', ''bbb'', ''ccccccccc'', ''ddd''] @ skillCalls ''jd'' [] @
                   roleCalls ''jd'' (take k [[(''jobTitle'', ''X''), (''from'', ''2018''), (''description'', ''dx'')],
            [(''jobTitle'', ''Y''), (''from'', ''2021''), (''description'', ''dy'')]]))
                  ([[(''jobTitle'', ''X''), (''from'', ''2018''), (''description'', ''dx'')],
            [(''jobTitle'', ''Y''), (''from'', ''2021''), (''description'', ''dy'')]] ! k) ''jd'' = Inr r \<and>
              (score r < 80 \<longrightarrow> ''description'' \<notin> fst ` set (rs ! k)) \<and>
              (\<not> score r < 80 \<longrightarrow> rs ! k = [[(''jobTitle'', ''X''), (''from'', ''2018''), (''description'', ''dx'')],
            [(''jobTitle'', ''Y''), (''from'', ''2021''), (''description'', ''dy'')]] ! k) \<and>
              filter (\<lambda>kv. fst kv \<noteq> ''description'') (rs ! k) =
                filter (\<lambda>kv. fst kv \<noteq> ''description'') ([[(''jobTitle'', ''X''), (''from'', ''2018''), (''description'', ''dx'')],
            [(''jobTitle'', ''Y''), (''from'', ''2021''), (''description'', ''dy'')]] ! k))"
    by (elim exE conjE)
  from c have 1: "[[(''jobTitle'', ''X''), (''from'', ''2018''), (''description'', ''dx'')],
       [(''jobTitle'', ''Y''), (''from'', ''2021'')]] = sortJS (byStartDateDesc (\<lambda>a b. 0)) rs"
    by (simp only: cv.select_convs)
  from len have 2: "length rs = 2" by simp
  have "(0::nat) < length [[(''jobTitle'', ''X''), (''from'', ''2018''), (''description'', ''dx'')],
            [(''jobTitle'', ''Y''), (''from'', ''2021''), (''description'', ''dy'')]]" by simp
  from each [rule_format, OF this] obtain r0 where
    r0: "assessRoleRelevanceToNewJob moodyLLM
                  ([] @ skillCalls ''jd'' [''aaaaaaa'', ''bbb'', ''ccccccccc'', ''ddd''] @ skillCalls ''jd'' [] @
                   roleCalls ''jd'' (take 0 [[(''jobTitle'', ''X''), (''from'', ''2018''), (''description'', ''dx'')],
            [(''jobTitle'', ''Y''), (''from'', ''2021''), (''description'', ''dy'')]]))
                  ([[(''jobTitle'', ''X''), (''from'', ''2018''), (''description'', ''dx'')],
            [(''jobTitle'', ''Y''), (''from'', ''2021''), (''description'', ''dy'')]] ! 0) ''jd'' = Inr r0" and
    kept: "\<not> score r0 < 80 \<longrightarrow> rs ! 0 = [[(''jobTitle'', ''X''), (''from'', ''2018''), (''description'', ''dx'')],
            [(''jobTitle'', ''Y''), (''from'', ''2021''), (''description'', ''dy'')]] ! 0"
    by (elim exE conjE)
  from r0 have "score r0 = 85"
    by (auto simp: moodyLLM_def skillCalls_def roleCalls_def)
  with kept have 3: "rs ! 0 = [(''jobTitle'', ''X''), (''from'', ''2018''), (''description'', ''dx'')]"
    by simp
  have "(1::nat) < length [[(''jobTitle'', ''X''), (''from'', ''2018''), (''description'', ''dx'')],
            [(''jobTitle'', ''Y''), (''from'', ''2021''), (''description'', ''dy'')]]" by simp
  from each [rule_format, OF this] obtain r1 where
    r1: "assessRoleRelevanceToNewJob moodyLLM
                  ([] @ skillCalls ''jd'' [''aaaaaaa'', ''bbb'', ''ccccccccc'', ''ddd''] @ skillCalls ''jd'' [] @
                   roleCalls ''jd'' (take 1 [[(''jobTitle'', ''X''), (''from'', ''2018''), (''description'', ''dx'')],
            [(''jobTitle'', ''Y''), (''from'', ''2021''), (''description'', ''dy'')]]))
                  ([[(''jobTitle'', ''X''), (''from'', ''2018''), (''description'', ''dx'')],
            [(''jobTitle'', ''Y''), (''from'', ''2021''), (''description'', ''dy'')]] ! 1) ''jd'' = Inr r1" and
    absent: "score r1 < 80 \<longrightarrow> ''description'' \<notin> fst ` set (rs ! 1)" and
    others: "filter (\<lambda>kv. fst kv \<noteq> ''description'') (rs ! 1) =
                filter (\<lambda>kv. fst kv \<noteq> ''description'') ([[(''jobTitle'', ''X''), (''from'', ''2018''), (''description'', ''dx'')],
            [(''jobTitle'', ''Y''), (''from'', ''2021''), (''description'', ''dy'')]] ! 1)"
    by (elim exE conjE)
  from r1 have "score r1 = 5"
    by (auto simp: moodyLLM_def skillCalls_def roleCalls_def)
  with absent have 4: "''description'' \<notin> fst ` set (rs ! 1)" by simp
  from others have 5: "filter (\<lambda>kv. fst kv \<noteq> ''description'') (rs ! 1) =
        [(''jobTitle'', ''Y''), (''from'', ''2021'')]"
    by simp
  have "\<exists>rolesToInclude.
      [[(''jobTitle'', ''X''), (''from'', ''2018''), (''description'', ''dx'')],
       [(''jobTitle'', ''Y''), (''from'', ''2021'')]] =
        sortJS (byStartDateDesc (\<lambda>a b. 0)) rolesToInclude \<and>
      length rolesToInclude = 2 \<and>
      rolesToInclude ! 0 = [(''jobTitle'', ''X''), (''from'', ''2018''), (''description'', ''dx'')] \<and>
      ''description'' \<notin> fst ` set (rolesToInclude ! 1) \<and>
      filter (\<lambda>kv. fst kv \<noteq> ''description'') (rolesToInclude ! 1) =
        [(''jobTitle'', ''Y''), (''from'', ''2021'')]"
    by (rule exI [of _ rs]) (intro conjI 1 2 3 4 5)
  with run show ?thesis by (rule conjI)
qed



subsection \<open>sendToLLM\<close>

text \<open>
  Claim C10, as stated, fails: with the schema of the relevance scorer supplied, a
  response whose text is the JSON object with score 50 is returned by sendToLLM as it
  is, and it violates the schema (the score is above the maximum 10).
\<close>

theorem schema_violation_returned_counterexample:
  \<open>arg_schema exampleArgs = Some scoreSchema \<and>
   snd (sendToLLM (\<lambda>opts. Inr ''{"score": 50, "rationale": "x"}'') exampleSettings exampleArgs) =
     Returned (Structured (JObj [(''score'', JNum 50 0), (''rationale'', JStr ''x'')])) \<and>
   \<not> validates scoreSchema (JObj [(''score'', JNum 50 0), (''rationale'', JStr ''x'')])\<close>
proof -
  have 1: "arg_schema exampleArgs = Some scoreSchema"
    by (simp add: exampleArgs_def)
  have p: \<open>JSON_parse ''{"score": 50, "rationale": "x"}'' =
      Parsed (JObj [(''score'', JNum 50 0), (''rationale'', JStr ''x'')])\<close>
    by code_simp
  have 2: \<open>snd (sendToLLM (\<lambda>opts. Inr ''{"score": 50, "rationale": "x"}'') exampleSettings exampleArgs) =
     Returned (Structured (JObj [(''score'', JNum 50 0), (''rationale'', JStr ''x'')]))\<close>
    by (simp add: sendToLLM_def Let_def 1 p)
  have 3: "\<not> validates scoreSchema (JObj [(''score'', JNum 50 0), (''rationale'', JStr ''x'')])"
    by (simp add: scoreSchema_def numIsInteger_def numAtLeast_def numAtMost_def)
  from 1 2 3 show ?thesis by (intro conjI)
qed

text \<open>
  Claim C10, amended. When a schema is supplied, sendToLLM asks the service for output
  in the strict json_schema format of that schema; it fails with the error of the
  request, or with a SyntaxError when the response text is not JSON, and otherwise
  returns what JSON.parse gives for the text, whatever that value is: the value is not
  checked against the schema by sendToLLM.
\<close>

theorem sendToLLM_returns_parse_unchecked:
  assumes "arg_schema args = Some sch"
  shows "text_format (request cfg args) =
           Some \<lparr>format_name = ''structured_output'', format_type = ''json_schema'',
                 format_schema = sch, strict = True\<rparr> \<and>
         (\<forall>e. create (request cfg args) = Inl e \<longrightarrow> snd (sendToLLM create cfg args) = Threw e) \<and>
         (\<forall>t. create (request cfg args) = Inr t \<and> JSON_parse t = SyntaxErr \<longrightarrow>
              snd (sendToLLM create cfg args) = Threw SyntaxError) \<and>
         (\<forall>t j. create (request cfg args) = Inr t \<and> JSON_parse t = Parsed j \<longrightarrow>
              snd (sendToLLM create cfg args) = Returned (Structured j))"
  using assms by (simp add: request_def sendToLLM_def Let_def)

theorem sendToLLM_returns_parse_unchecked_witness:
  \<open>arg_schema exampleArgs = Some scoreSchema \<and>
   JSON_parse ''{"score": 7, "rationale": "fits"}'' =
     Parsed (JObj [(''score'', JNum 7 0), (''rationale'', JStr ''fits'')]) \<and>
   snd (sendToLLM (\<lambda>opts. Inr ''{"score": 7, "rationale": "fits"}'') exampleSettings exampleArgs) =
     Returned (Structured (JObj [(''score'', JNum 7 0), (''rationale'', JStr ''fits'')])) \<and>
   JSON_parse ''{"score": 7, "rationale'' = SyntaxErr \<and>
   snd (sendToLLM (\<lambda>opts. Inr ''{"score": 7, "rationale'') exampleSettings exampleArgs) =
     Threw SyntaxError\<close>
proof -
  have 1: "arg_schema exampleArgs = Some scoreSchema"
    by (simp add: exampleArgs_def)
  have p: \<open>JSON_parse ''{"score": 7, "rationale": "fits"}'' =
      Parsed (JObj [(''score'', JNum 7 0), (''rationale'', JStr ''fits'')])\<close>
    by code_simp
  have q: \<open>JSON_parse ''{"score": 7, "rationale'' = SyntaxErr\<close>
    by code_simp
  have 2: \<open>snd (sendToLLM (\<lambda>opts. Inr ''{"score": 7, "rationale": "fits"}'') exampleSettings exampleArgs) =
     Returned (Structured (JObj [(''score'', JNum 7 0), (''rationale'', JStr ''fits'')]))\<close>
    using sendToLLM_returns_parse_unchecked [OF 1, of exampleSettings
        \<open>\<lambda>opts. Inr ''{"score": 7, "rationale": "fits"}''\<close>] p
    by simp
  have 3: \<open>snd (sendToLLM (\<lambda>opts. Inr ''{"score": 7, "rationale'') exampleSettings exampleArgs) =
     Threw SyntaxError\<close>
    using sendToLLM_returns_parse_unchecked [OF 1, of exampleSettings
        \<open>\<lambda>opts. Inr ''{"score": 7, "rationale''\<close>] q
    by simp
  from 1 p 2 q 3 show ?thesis by (intro conjI)
qed

end
